theory Spec2Isabelle
  imports Main "HOL-Library.Word"
begin

section \<open>Data representation\<close>

text \<open>
  The addon \<^verbatim>\<open>addon.cc\<close> drives WebAuthn ceremonies against Windows Hello.
  \<^verbatim>\<open>std::string\<close> is a \<^typ>\<open>string\<close> (a list of 8-bit characters),
  \<^verbatim>\<open>std::vector<uint8_t>\<close> a list of 8-bit words, \<^verbatim>\<open>std::wstring\<close> a list of
  16-bit code units, \<^verbatim>\<open>HWND\<close> a 64-bit word with \<^verbatim>\<open>nullptr\<close> as 0 and
  \<^verbatim>\<open>HRESULT\<close> a 32-bit word read as a signed number.

  Sizes are natural numbers: the casts \<^verbatim>\<open>static_cast<DWORD>(data.size())\<close> and
  \<^verbatim>\<open>static_cast<int>(w.size())\<close> are identities on the sizes that occur (the
  challenge has 32 bytes, the texts come from JavaScript strings).
\<close>

type_synonym byte = "8 word"
type_synonym wchar = "16 word"
type_synonym wstring = "wchar list"
type_synonym HWND = "64 word"
type_synonym HRESULT = "32 word"
type_synonym DWORD = "32 word"

definition NUL :: char where
  "NUL = CHR 0x00"

section \<open>Base64url encoding\<close>

subsection \<open>The platform's Base64 conversion\<close>

text \<open>
  \<^verbatim>\<open>CryptBinaryToStringA\<close> belongs to Windows (wincrypt.h). With the flags
  \<^verbatim>\<open>CRYPT_STRING_BASE64 | CRYPT_STRING_NOCRLF\<close> it produces the standard padded
  Base64 text of RFC 4648 without line breaks. Called with a null output buffer it
  stores the required size, counting the terminating NUL; called with a buffer it
  writes the text and the NUL and stores the number of characters without the NUL,
  and it fails when the buffer is too small.
\<close>

definition base64_alphabet :: string where
  "base64_alphabet =
     ''ABCDEFGHIJKLMNOPQRSTUVWXYZabcdefghijklmnopqrstuvwxyz0123456789+/''"

definition base64_digit :: "nat \<Rightarrow> char" where
  "base64_digit n = base64_alphabet ! n"

fun base64_text :: "byte list \<Rightarrow> string" where
  "base64_text [] = []"
| "base64_text [a] =
     [base64_digit (unat a div 4),
      base64_digit ((unat a mod 4) * 16),
      CHR ''='', CHR ''='']"
| "base64_text [a, b] =
     [base64_digit (unat a div 4),
      base64_digit ((unat a mod 4) * 16 + unat b div 16),
      base64_digit ((unat b mod 16) * 4),
      CHR ''='']"
| "base64_text (a # b # c # rest) =
     [base64_digit (unat a div 4),
      base64_digit ((unat a mod 4) * 16 + unat b div 16),
      base64_digit ((unat b mod 16) * 4 + unat c div 64),
      base64_digit (unat c mod 64)] @ base64_text rest"

text \<open>
  The second argument is the output buffer: \<open>None\<close> is the null pointer,
  \<open>Some cch\<close> a buffer of \<open>cch\<close> characters. The result is \<open>None\<close> when the call
  returns FALSE, and otherwise the characters written and the value stored in
  \<^verbatim>\<open>*pcchString\<close>.
\<close>

definition CryptBinaryToStringA :: "byte list \<Rightarrow> nat option \<Rightarrow> (string \<times> nat) option" where
  "CryptBinaryToStringA pbBinary pszString =
     (let text = base64_text pbBinary in
      case pszString of
        None \<Rightarrow> Some ([], length text + 1)
      | Some cch \<Rightarrow>
          if cch < length text + 1 then None
          else Some (text @ [NUL], length text))"

subsection \<open>Base64UrlEncode\<close>

text \<open>
  The loop \<^verbatim>\<open>while (!base64.empty() && base64.back() == '=') base64.pop_back();\<close>
\<close>

function pop_back_padding :: "string \<Rightarrow> string" where
  "pop_back_padding base64 =
     (if base64 \<noteq> [] \<and> last base64 = CHR ''='' then pop_back_padding (butlast base64)
      else base64)"
  by pat_completeness auto
termination
  by (relation "measure length") auto

declare pop_back_padding.simps [simp del]

text \<open>The body of the loop \<^verbatim>\<open>for (auto& ch : base64)\<close>.\<close>

definition url_char :: "char \<Rightarrow> char" where
  "url_char ch =
     (if ch = CHR ''+'' then CHR ''-'' else if ch = CHR ''/'' then CHR ''_'' else ch)"

definition Base64UrlEncode :: "byte list \<Rightarrow> string" where
  "Base64UrlEncode data =
     (if data = [] then []
      else
        case CryptBinaryToStringA data None of
          None \<Rightarrow> []
        | Some (_, outLen) \<Rightarrow>
            (let base64 = replicate outLen NUL in
             case CryptBinaryToStringA data (Some outLen) of
               None \<Rightarrow> []
             | Some (written, _) \<Rightarrow>
                 (let base64 = written @ drop (length written) base64;
                      base64 = (if base64 \<noteq> [] \<and> last base64 = NUL then butlast base64
                                else base64);
                      base64 = map url_char base64
                  in pop_back_padding base64)))"

text \<open>
  The encoding as the specification words it: standard Base64, \<open>+\<close> and \<open>/\<close>
  remapped to \<open>-\<close> and \<open>_\<close>, trailing \<open>=\<close> padding stripped.
\<close>

definition base64url_spec :: "byte list \<Rightarrow> string" where
  "base64url_spec data =
     rev (dropWhile (\<lambda>ch. ch = CHR ''='') (rev (map url_char (base64_text data))))"

section \<open>Text conversion\<close>

text \<open>
  \<^verbatim>\<open>WideCharToMultiByte\<close> belongs to Windows. With \<^verbatim>\<open>CP_UTF8\<close> and no flags it
  converts UTF-16 to UTF-8 and replaces a surrogate without its partner by U+FFFD.
  Called with a null buffer it returns the required size; with a buffer it writes
  the bytes and returns their number, or returns 0 when the buffer is too small.
\<close>

definition replacement_character :: string where
  "replacement_character = [char_of (0xEF :: nat), char_of (0xBF :: nat), char_of (0xBD :: nat)]"

fun utf8_of_utf16 :: "wstring \<Rightarrow> string" where
  "utf8_of_utf16 [] = []"
| "utf8_of_utf16 (u # us) =
     (if unat u < 0x80 then char_of (unat u) # utf8_of_utf16 us
      else if unat u < 0x800 then
        char_of (0xC0 + unat u div 64) # char_of (0x80 + unat u mod 64) # utf8_of_utf16 us
      else if 0xD800 \<le> unat u \<and> unat u < 0xDC00 then
        (case us of
           [] \<Rightarrow> replacement_character
         | l # us' \<Rightarrow>
             if 0xDC00 \<le> unat l \<and> unat l < 0xE000 then
               (let cp = 0x10000 + (unat u - 0xD800) * 0x400 + (unat l - 0xDC00) in
                char_of (0xF0 + cp div 0x40000) #
                char_of (0x80 + (cp div 0x1000) mod 64) #
                char_of (0x80 + (cp div 64) mod 64) #
                char_of (0x80 + cp mod 64) # utf8_of_utf16 us')
             else replacement_character @ utf8_of_utf16 us)
      else if 0xDC00 \<le> unat u \<and> unat u < 0xE000 then
        replacement_character @ utf8_of_utf16 us
      else
        char_of (0xE0 + unat u div 0x1000) #
        char_of (0x80 + (unat u div 64) mod 64) #
        char_of (0x80 + unat u mod 64) # utf8_of_utf16 us)"

declare utf8_of_utf16.simps(2) [simp del]

definition WideCharToMultiByte :: "wstring \<Rightarrow> nat option \<Rightarrow> string \<times> nat" where
  "WideCharToMultiByte lpWideCharStr lpMultiByteStr =
     (let text = utf8_of_utf16 lpWideCharStr in
      case lpMultiByteStr of
        None \<Rightarrow> ([], length text)
      | Some cbMultiByte \<Rightarrow>
          if cbMultiByte < length text then ([], 0) else (text, length text))"

definition WideToUtf8 :: "wstring \<Rightarrow> string" where
  "WideToUtf8 w =
     (if w = [] then []
      else
        let size = snd (WideCharToMultiByte w None);
            out = replicate size NUL;
            written = fst (WideCharToMultiByte w (Some size))
        in written @ drop (length written) out)"

section \<open>Client data\<close>

definition widen :: "string \<Rightarrow> wstring" where
  "widen s = map of_char s"

definition kOriginPrefix :: wstring where
  "kOriginPrefix = widen ''https://''"

definition MakeClientDataJson :: "string \<Rightarrow> wstring \<Rightarrow> byte list \<Rightarrow> byte list" where
  \<open>MakeClientDataJson type rpId challenge =
     (let challengeB64 = Base64UrlEncode challenge;
          origin = WideToUtf8 (kOriginPrefix @ rpId);
          json = ''{'';
          json = json @ (''"type":"'' @ type @ ''",'');
          json = json @ (''"challenge":"'' @ challengeB64 @ ''",'');
          json = json @ (''"origin":"'' @ origin @ ''",'');
          json = json @ ''"crossOrigin":false'';
          json = json @ ''}''
      in map of_char json)\<close>

section \<open>Status codes\<close>

text \<open>
  \<^verbatim>\<open>HRESULT\<close> values of the Windows headers, and the macros \<^verbatim>\<open>SUCCEEDED\<close>
  (\<^verbatim>\<open>hr >= 0\<close>) and \<^verbatim>\<open>FAILED\<close> (\<^verbatim>\<open>hr < 0\<close>).
\<close>

definition S_OK :: HRESULT where
  "S_OK = 0"

definition E_FAIL :: HRESULT where
  "E_FAIL = 0x80004005"

definition RPC_E_CHANGED_MODE :: HRESULT where
  "RPC_E_CHANGED_MODE = 0x80010106"

definition RPC_E_TOO_LATE :: HRESULT where
  "RPC_E_TOO_LATE = 0x80010119"

definition SUCCEEDED :: "HRESULT \<Rightarrow> bool" where
  "SUCCEEDED hr = (0 \<le> sint hr)"

definition FAILED :: "HRESULT \<Rightarrow> bool" where
  "FAILED hr = (sint hr < 0)"

section \<open>Errors and results\<close>

text \<open>
  Every failure crosses the boundary as a message. One constructor stands for each
  message of the source; \<open>message\<close> gives its fixed part (the text of
  \<^verbatim>\<open>HResultToString\<close> follows it where a status code is carried).
\<close>

datatype error =
    TypeError string
  | RpIdRequired
  | CredentialIdRequired
  | RandomBytesFailed string
  | ComInitializationFailed
  | CoInitializeSecurityFailed HRESULT
  | IsAvailableFailed HRESULT
  | MakeCredentialFailed HRESULT
  | GetAssertionFailed HRESULT
  | MissingCredentialId
  | InvalidOperation

fun message :: "error \<Rightarrow> string" where
  "message (TypeError m) = m"
| "message RpIdRequired = ''rpId is required''"
| "message CredentialIdRequired = ''credentialId is required''"
| "message (RandomBytesFailed m) = m"
| "message ComInitializationFailed = ''COM initialization failed''"
| "message (CoInitializeSecurityFailed hr) = ''CoInitializeSecurity failed: ''"
| "message (IsAvailableFailed hr) =
     ''WebAuthNIsUserVerifyingPlatformAuthenticatorAvailable failed: ''"
| "message (MakeCredentialFailed hr) = ''WebAuthNAuthenticatorMakeCredential failed: ''"
| "message (GetAssertionFailed hr) = ''WebAuthNAuthenticatorGetAssertion failed: ''"
| "message MissingCredentialId = ''Credential attestation missing credentialId''"
| "message InvalidOperation = ''Invalid operation''"

text \<open>The errors that report a missing or empty required argument.\<close>

fun InvalidArgument :: "error \<Rightarrow> bool" where
  "InvalidArgument (TypeError m) = True"
| "InvalidArgument RpIdRequired = True"
| "InvalidArgument CredentialIdRequired = True"
| "InvalidArgument e = False"

datatype js_result = ResultBuffer "byte list" | ResultBoolean bool

type_synonym outcome = "error + js_result"

section \<open>WebAuthn structures\<close>

text \<open>
  The enumerations of webauthn.h that the options use; a field that the source leaves
  at its zero initialisation holds the first value.
\<close>

datatype COSE_ALGORITHM =
    WEBAUTHN_COSE_ALGORITHM_ECDSA_P256_WITH_SHA256
  | WEBAUTHN_COSE_ALGORITHM_ECDSA_P384_WITH_SHA384
  | WEBAUTHN_COSE_ALGORITHM_ECDSA_P521_WITH_SHA512
  | WEBAUTHN_COSE_ALGORITHM_RSASSA_PKCS1_V1_5_WITH_SHA256
  | WEBAUTHN_COSE_ALGORITHM_RSASSA_PKCS1_V1_5_WITH_SHA384
  | WEBAUTHN_COSE_ALGORITHM_RSASSA_PKCS1_V1_5_WITH_SHA512
  | WEBAUTHN_COSE_ALGORITHM_RSA_PSS_WITH_SHA256
  | WEBAUTHN_COSE_ALGORITHM_RSA_PSS_WITH_SHA384
  | WEBAUTHN_COSE_ALGORITHM_RSA_PSS_WITH_SHA512

datatype AUTHENTICATOR_ATTACHMENT =
    WEBAUTHN_AUTHENTICATOR_ATTACHMENT_ANY
  | WEBAUTHN_AUTHENTICATOR_ATTACHMENT_PLATFORM
  | WEBAUTHN_AUTHENTICATOR_ATTACHMENT_CROSS_PLATFORM
  | WEBAUTHN_AUTHENTICATOR_ATTACHMENT_CROSS_PLATFORM_U2F_V2

datatype USER_VERIFICATION_REQUIREMENT =
    WEBAUTHN_USER_VERIFICATION_REQUIREMENT_ANY
  | WEBAUTHN_USER_VERIFICATION_REQUIREMENT_REQUIRED
  | WEBAUTHN_USER_VERIFICATION_REQUIREMENT_PREFERRED
  | WEBAUTHN_USER_VERIFICATION_REQUIREMENT_DISCOURAGED

datatype ATTESTATION_CONVEYANCE_PREFERENCE =
    WEBAUTHN_ATTESTATION_CONVEYANCE_PREFERENCE_ANY
  | WEBAUTHN_ATTESTATION_CONVEYANCE_PREFERENCE_NONE
  | WEBAUTHN_ATTESTATION_CONVEYANCE_PREFERENCE_INDIRECT
  | WEBAUTHN_ATTESTATION_CONVEYANCE_PREFERENCE_DIRECT

datatype CREDENTIAL_TYPE = WEBAUTHN_CREDENTIAL_TYPE_PUBLIC_KEY

datatype HASH_ALGORITHM =
    WEBAUTHN_HASH_ALGORITHM_SHA_256
  | WEBAUTHN_HASH_ALGORITHM_SHA_384
  | WEBAUTHN_HASH_ALGORITHM_SHA_512

record WEBAUTHN_RP_ENTITY_INFORMATION =
  rp_pwszId :: wstring
  rp_pwszName :: wstring

record WEBAUTHN_USER_ENTITY_INFORMATION =
  user_pbId :: "byte list"
  user_pwszName :: wstring
  user_pwszDisplayName :: wstring

record WEBAUTHN_COSE_CREDENTIAL_PARAMETER =
  pwszCredentialType :: CREDENTIAL_TYPE
  lAlg :: COSE_ALGORITHM

record WEBAUTHN_CLIENT_DATA =
  pbClientDataJSON :: "byte list"
  pwszHashAlgId :: HASH_ALGORITHM

record WEBAUTHN_AUTHENTICATOR_MAKE_CREDENTIAL_OPTIONS =
  mc_dwTimeoutMilliseconds :: nat
  mc_dwUserVerificationRequirement :: USER_VERIFICATION_REQUIREMENT
  mc_dwAttestationConveyancePreference :: ATTESTATION_CONVEYANCE_PREFERENCE
  mc_dwAuthenticatorAttachment :: AUTHENTICATOR_ATTACHMENT

record WEBAUTHN_CREDENTIAL =
  cred_pbId :: "byte list"
  cred_pwszCredentialType :: CREDENTIAL_TYPE

record WEBAUTHN_AUTHENTICATOR_GET_ASSERTION_OPTIONS =
  ga_dwTimeoutMilliseconds :: nat
  ga_dwUserVerificationRequirement :: USER_VERIFICATION_REQUIREMENT
  ga_CredentialList :: "WEBAUTHN_CREDENTIAL list"
  ga_dwAuthenticatorAttachment :: AUTHENTICATOR_ATTACHMENT

text \<open>The arguments of one call of \<^verbatim>\<open>WebAuthNAuthenticatorMakeCredential\<close>.\<close>

record MakeCredentialCall =
  mc_hWnd :: HWND
  mc_rpInfo :: WEBAUTHN_RP_ENTITY_INFORMATION
  mc_userInfo :: WEBAUTHN_USER_ENTITY_INFORMATION
  mc_coseList :: "WEBAUTHN_COSE_CREDENTIAL_PARAMETER list"
  mc_clientData :: WEBAUTHN_CLIENT_DATA
  mc_options :: WEBAUTHN_AUTHENTICATOR_MAKE_CREDENTIAL_OPTIONS

text \<open>The arguments of one call of \<^verbatim>\<open>WebAuthNAuthenticatorGetAssertion\<close>.\<close>

record GetAssertionCall =
  ga_hWnd :: HWND
  ga_pwszRpId :: wstring
  ga_clientData :: WEBAUTHN_CLIENT_DATA
  ga_options :: WEBAUTHN_AUTHENTICATOR_GET_ASSERTION_OPTIONS

text \<open>
  The attestation the platform allocates. \<open>pbCredentialId = None\<close> is a null pointer,
  \<open>Some m\<close> a pointer to memory whose byte at offset \<open>i\<close> is \<open>m i\<close>.
\<close>

record WEBAUTHN_CREDENTIAL_ATTESTATION =
  cbCredentialId :: DWORD
  pbCredentialId :: "(nat \<Rightarrow> byte) option"

section \<open>The platform and the process\<close>

subsection \<open>Window system\<close>

text \<open>
  What the window functions of user32 answer at one moment. \<open>EnumWindows_order\<close>
  lists the top-level windows in the order \<^verbatim>\<open>EnumWindows\<close> visits them, and
  \<open>WindowProcessId\<close> is the process id that \<^verbatim>\<open>GetWindowThreadProcessId\<close> stores.
\<close>

record window_system =
  IsWindow :: "HWND \<Rightarrow> bool"
  GetForegroundWindow :: HWND
  GetActiveWindow :: HWND
  GetDesktopWindow :: HWND
  EnumWindows_order :: "HWND list"
  WindowProcessId :: "HWND \<Rightarrow> DWORD"
  IsWindowVisible :: "HWND \<Rightarrow> bool"
  GetCurrentProcessId :: DWORD

subsection \<open>Events\<close>

text \<open>The calls that the claims observe, in the order the process makes them.\<close>

datatype COINIT = COINIT_APARTMENTTHREADED | COINIT_MULTITHREADED

datatype event =
    Call_CoInitializeEx COINIT
  | Call_CoUninitialize
  | Call_CoInitializeSecurity
  | Call_BCryptGenRandom nat
  | Call_IsUserVerifyingPlatformAuthenticatorAvailable
  | Call_MakeCredential MakeCredentialCall
  | Call_GetAssertion GetAssertionCall
  | Call_FreeCredentialAttestation
  | Call_FreeAssertion
  | Call_throw_error error
  | Call_reject_deferred error
  | Call_resolve_deferred js_result

subsection \<open>Platform behaviour\<close>

text \<open>
  The answers of Windows, which the source does not determine.
  \<open>CoInitializeSecurity p k\<close> is the status of the call number \<open>k\<close> (from 0) and
  \<open>BCryptGenRandom p k n\<close> the \<open>n\<close> bytes of the call number \<open>k\<close>, or \<open>None\<close> when
  it fails. An authenticator call answers with its status and the result it
  allocated (\<open>None\<close>: the pointer stays null; for an assertion only the presence
  matters). \<open>MultiByteToWideChar\<close> is the UTF-16 text of a non-empty UTF-8 text.
  The last two fields are the effect on the window system of the calls that try to
  bring a window to the foreground.
\<close>

record platform =
  CoInitializeEx :: "COINIT \<Rightarrow> HRESULT"
  CoInitializeSecurity :: "nat \<Rightarrow> HRESULT"
  BCryptGenRandom :: "nat \<Rightarrow> nat \<Rightarrow> byte list option"
  MultiByteToWideChar :: "string \<Rightarrow> wstring"
  IsUserVerifyingPlatformAuthenticatorAvailable :: "HRESULT \<times> bool"
  WebAuthNAuthenticatorMakeCredential ::
    "MakeCredentialCall \<Rightarrow> HRESULT \<times> WEBAUTHN_CREDENTIAL_ATTESTATION option"
  WebAuthNAuthenticatorGetAssertion :: "GetAssertionCall \<Rightarrow> HRESULT \<times> bool"
  BringToForeground_effect :: "HWND \<Rightarrow> window_system \<Rightarrow> window_system"
  SetForegroundWindow_effect :: "HWND \<Rightarrow> window_system \<Rightarrow> window_system"

subsection \<open>Process state\<close>

text \<open>
  \<open>once\<close> and \<open>result\<close> are the function-local statics of
  \<^verbatim>\<open>EnsureComSecurityInitialized\<close>; the counters number the calls of the platform
  functions whose answer may change from call to call.
\<close>

record process =
  once :: bool
  result :: HRESULT
  security_calls :: nat
  random_calls :: nat
  windows :: window_system
  trace :: "event list"

definition start :: "window_system \<Rightarrow> process" where
  "start ws = \<lparr>once = False, result = E_FAIL, security_calls = 0, random_calls = 0,
     windows = ws, trace = []\<rparr>"

definition log :: "event \<Rightarrow> process \<Rightarrow> process" where
  "log e s = s\<lparr>trace := trace s @ [e]\<rparr>"

section \<open>Process security context\<close>

definition EnsureComSecurityInitialized :: "platform \<Rightarrow> process \<Rightarrow> HRESULT \<times> process" where
  "EnsureComSecurityInitialized p s =
     (let s = (if once s then s
               else
                 let hr = CoInitializeSecurity p (security_calls s);
                     s = log Call_CoInitializeSecurity
                           (s\<lparr>security_calls := Suc (security_calls s)\<rparr>);
                     s = s\<lparr>result := hr\<rparr>;
                     s = (if result s = RPC_E_TOO_LATE then s\<lparr>result := S_OK\<rparr> else s)
                 in s\<lparr>once := True\<rparr>)
      in (result s, s))"

text \<open>A sequence of calls, with the status each of them returns.\<close>

fun EnsureComSecurityInitialized_calls ::
  "platform \<Rightarrow> nat \<Rightarrow> process \<Rightarrow> HRESULT list \<times> process" where
  "EnsureComSecurityInitialized_calls p 0 s = ([], s)"
| "EnsureComSecurityInitialized_calls p (Suc n) s =
     (let (hr, s) = EnsureComSecurityInitialized p s;
          (hrs, s) = EnsureComSecurityInitialized_calls p n s
      in (hr # hrs, s))"

section \<open>Window focus resolver\<close>

record EnumWindowsData =
  targetPid :: DWORD
  foundHwnd :: HWND

text \<open>
  \<^verbatim>\<open>EnumWindows\<close> calls the callback on each top-level window until it returns
  FALSE.
\<close>

fun EnumWindows :: "(HWND \<Rightarrow> 'a \<Rightarrow> bool \<times> 'a) \<Rightarrow> HWND list \<Rightarrow> 'a \<Rightarrow> 'a" where
  "EnumWindows lpEnumFunc [] lParam = lParam"
| "EnumWindows lpEnumFunc (hwnd # rest) lParam =
     (let (continue, lParam) = lpEnumFunc hwnd lParam
      in if continue then EnumWindows lpEnumFunc rest lParam else lParam)"

text \<open>The callback that \<^verbatim>\<open>GetValidHwndForWebAuthn\<close> passes.\<close>

definition find_own_window ::
  "window_system \<Rightarrow> HWND \<Rightarrow> EnumWindowsData \<Rightarrow> bool \<times> EnumWindowsData" where
  "find_own_window ws hwnd pData =
     (let windowPid = WindowProcessId ws hwnd in
      if windowPid = targetPid pData then
        if IsWindowVisible ws hwnd then (False, pData\<lparr>foundHwnd := hwnd\<rparr>)
        else (True, pData)
      else (True, pData))"

definition GetValidHwndForWebAuthn :: "window_system \<Rightarrow> HWND \<Rightarrow> HWND" where
  "GetValidHwndForWebAuthn ws hwnd =
     (if hwnd \<noteq> 0 \<and> IsWindow ws hwnd then hwnd
      else
        let fg = GetForegroundWindow ws in
        if fg \<noteq> 0 \<and> IsWindow ws fg then fg
        else
          let active = GetActiveWindow ws in
          if active \<noteq> 0 \<and> IsWindow ws active then active
          else
            let data = \<lparr>targetPid = GetCurrentProcessId ws, foundHwnd = 0\<rparr>;
                data = EnumWindows (find_own_window ws) (EnumWindows_order ws) data
            in if foundHwnd data \<noteq> 0 \<and> IsWindow ws (foundHwnd data) then foundHwnd data
               else 0)"

text \<open>
  The resolution order as the specification words it: the caller's handle if it is a
  live window, else the foreground window, else the active window, else a visible
  top-level window of the current process found by enumeration, else null.
\<close>

definition live_window :: "window_system \<Rightarrow> HWND \<Rightarrow> bool" where
  "live_window ws h = (h \<noteq> 0 \<and> IsWindow ws h)"

definition own_visible_window :: "window_system \<Rightarrow> HWND \<Rightarrow> bool" where
  "own_visible_window ws h =
     (WindowProcessId ws h = GetCurrentProcessId ws \<and> IsWindowVisible ws h)"

definition resolution_order :: "window_system \<Rightarrow> HWND \<Rightarrow> HWND" where
  "resolution_order ws hwnd =
     (if live_window ws hwnd then hwnd
      else if live_window ws (GetForegroundWindow ws) then GetForegroundWindow ws
      else if live_window ws (GetActiveWindow ws) then GetActiveWindow ws
      else case find (own_visible_window ws) (EnumWindows_order ws) of
             Some h \<Rightarrow> h
           | None \<Rightarrow> 0)"

text \<open>\<^verbatim>\<open>EnumWindows\<close> visits windows that exist.\<close>

definition enumerates_windows :: "window_system \<Rightarrow> bool" where
  "enumerates_windows ws = list_all (live_window ws) (EnumWindows_order ws)"

section \<open>Arguments from JavaScript\<close>

text \<open>
  A JavaScript value as the addon tells them apart: a string (held as its UTF-8
  text, which is what \<^verbatim>\<open>napi_get_value_string_utf8\<close> hands out), a Buffer, or
  anything else.
\<close>

datatype napi_value = String string | Buffer "byte list" | Other

definition GetStringArg :: "napi_value \<Rightarrow> string option" where
  "GetStringArg v = (case v of String out \<Rightarrow> Some out | _ \<Rightarrow> None)"

definition GetBufferArg :: "napi_value \<Rightarrow> byte list option" where
  "GetBufferArg v = (case v of Buffer out \<Rightarrow> Some out | _ \<Rightarrow> None)"

text \<open>
  \<^verbatim>\<open>ReadHwndFromBuffer\<close> on a 64-bit build, where \<^verbatim>\<open>sizeof(void*)\<close> and
  \<^verbatim>\<open>sizeof(uint64_t)\<close> are both 8; \<^verbatim>\<open>memcpy\<close> reads the handle in little-endian
  order. \<open>data = None\<close> is a null pointer.
\<close>

definition ReadHwndFromBuffer :: "byte list option \<Rightarrow> nat \<Rightarrow> HWND" where
  "ReadHwndFromBuffer data data_len =
     (case data of
        None \<Rightarrow> 0
      | Some bytes \<Rightarrow>
          if data_len \<noteq> 8 \<and> data_len \<noteq> 8 then 0
          else word_rcat (rev (take 8 bytes)))"

text \<open>
  The block that reads the optional window argument at position \<open>i\<close>, the same in
  the four entry points. An empty Buffer has no storage.
\<close>

definition hwnd_argument :: "napi_value list \<Rightarrow> nat \<Rightarrow> HWND" where
  "hwnd_argument argv i =
     (if i + 1 \<le> length argv then
        case argv ! i of
          Buffer bytes \<Rightarrow>
            ReadHwndFromBuffer (if bytes = [] then None else Some bytes) (length bytes)
        | _ \<Rightarrow> 0
      else 0)"

definition Utf8ToWide :: "platform \<Rightarrow> string \<Rightarrow> wstring" where
  "Utf8ToWide p s = (if s = [] then [] else MultiByteToWideChar p s)"

section \<open>Ceremony engine\<close>

subsection \<open>Helpers\<close>

definition GetRandomBytes :: "platform \<Rightarrow> nat \<Rightarrow> process \<Rightarrow> byte list option \<times> process" where
  "GetRandomBytes p len s =
     (BCryptGenRandom p (random_calls s) len,
      log (Call_BCryptGenRandom len) (s\<lparr>random_calls := Suc (random_calls s)\<rparr>))"

definition throw_error :: "error \<Rightarrow> process \<Rightarrow> outcome \<times> process" where
  "throw_error e s = (Inl e, log (Call_throw_error e) s)"

text \<open>
  The constructor of \<^verbatim>\<open>ScopedCoInit\<close> returns \<open>did_init\<close>; the destructor runs
  when the function that declared the object returns.
\<close>

definition ScopedCoInit :: "platform \<Rightarrow> process \<Rightarrow> bool \<times> process" where
  "ScopedCoInit p s =
     (let hr = CoInitializeEx p COINIT_APARTMENTTHREADED;
          s = log (Call_CoInitializeEx COINIT_APARTMENTTHREADED) s;
          (hr, s) =
            (if hr = RPC_E_CHANGED_MODE then
               (CoInitializeEx p COINIT_MULTITHREADED,
                log (Call_CoInitializeEx COINIT_MULTITHREADED) s)
             else (hr, s))
      in (SUCCEEDED hr, s))"

definition ScopedCoInit_destructor :: "bool \<Rightarrow> process \<Rightarrow> process" where
  "ScopedCoInit_destructor did_init s = (if did_init then log Call_CoUninitialize s else s)"

text \<open>
  \<^verbatim>\<open>BringToForeground\<close> returns nothing and raises nothing: after its two guards
  it only changes the window system.
\<close>

definition BringToForeground :: "platform \<Rightarrow> HWND \<Rightarrow> window_system \<Rightarrow> window_system" where
  "BringToForeground p hwnd ws =
     (if hwnd = 0 then ws
      else if \<not> IsWindow ws hwnd then ws
      else BringToForeground_effect p hwnd ws)"

text \<open>
  The structures passed to \<^verbatim>\<open>WebAuthNAuthenticatorMakeCredential\<close>; the source
  builds them with the same statements in \<^verbatim>\<open>Execute\<close> and in
  \<^verbatim>\<open>CreateCredentialSync\<close>.
\<close>

definition make_credential_call ::
  "HWND \<Rightarrow> wstring \<Rightarrow> wstring \<Rightarrow> wstring \<Rightarrow> byte list \<Rightarrow> byte list \<Rightarrow> MakeCredentialCall" where
  "make_credential_call hWnd rp_id rp_name user_name challenge userId =
     (let clientDataJson = MakeClientDataJson ''webauthn.create'' rp_id challenge;
          rpInfo = \<lparr>rp_pwszId = rp_id,
                    rp_pwszName = (if rp_name = [] then rp_id else rp_name)\<rparr>;
          userInfo = \<lparr>user_pbId = userId,
                      user_pwszName = (if user_name = [] then widen ''Netcatty'' else user_name),
                      user_pwszDisplayName =
                        (if user_name = [] then widen ''Netcatty'' else user_name)\<rparr>;
          coseParams =
            [\<lparr>pwszCredentialType = WEBAUTHN_CREDENTIAL_TYPE_PUBLIC_KEY,
              lAlg = WEBAUTHN_COSE_ALGORITHM_ECDSA_P256_WITH_SHA256\<rparr>,
             \<lparr>pwszCredentialType = WEBAUTHN_CREDENTIAL_TYPE_PUBLIC_KEY,
              lAlg = WEBAUTHN_COSE_ALGORITHM_RSASSA_PKCS1_V1_5_WITH_SHA256\<rparr>];
          coseList = take 2 coseParams;
          clientData = \<lparr>pbClientDataJSON = clientDataJson,
                        pwszHashAlgId = WEBAUTHN_HASH_ALGORITHM_SHA_256\<rparr>;
          options = \<lparr>mc_dwTimeoutMilliseconds = 60000,
                     mc_dwUserVerificationRequirement =
                       WEBAUTHN_USER_VERIFICATION_REQUIREMENT_REQUIRED,
                     mc_dwAttestationConveyancePreference =
                       WEBAUTHN_ATTESTATION_CONVEYANCE_PREFERENCE_NONE,
                     mc_dwAuthenticatorAttachment =
                       WEBAUTHN_AUTHENTICATOR_ATTACHMENT_PLATFORM\<rparr>
      in \<lparr>mc_hWnd = hWnd, mc_rpInfo = rpInfo, mc_userInfo = userInfo,
          mc_coseList = coseList, mc_clientData = clientData, mc_options = options\<rparr>)"

text \<open>The structures passed to \<^verbatim>\<open>WebAuthNAuthenticatorGetAssertion\<close>.\<close>

definition get_assertion_call :: "HWND \<Rightarrow> wstring \<Rightarrow> byte list \<Rightarrow> byte list \<Rightarrow> GetAssertionCall" where
  "get_assertion_call hWnd rp_id credential_id challenge =
     (let clientDataJson = MakeClientDataJson ''webauthn.get'' rp_id challenge;
          clientData = \<lparr>pbClientDataJSON = clientDataJson,
                        pwszHashAlgId = WEBAUTHN_HASH_ALGORITHM_SHA_256\<rparr>;
          cred = \<lparr>cred_pbId = credential_id,
                  cred_pwszCredentialType = WEBAUTHN_CREDENTIAL_TYPE_PUBLIC_KEY\<rparr>;
          allowList = [cred];
          options = \<lparr>ga_dwTimeoutMilliseconds = 60000,
                     ga_dwUserVerificationRequirement =
                       WEBAUTHN_USER_VERIFICATION_REQUIREMENT_REQUIRED,
                     ga_CredentialList = allowList,
                     ga_dwAuthenticatorAttachment =
                       WEBAUTHN_AUTHENTICATOR_ATTACHMENT_PLATFORM\<rparr>
      in \<lparr>ga_hWnd = hWnd, ga_pwszRpId = rp_id, ga_clientData = clientData,
          ga_options = options\<rparr>)"

text \<open>
  The test \<^verbatim>\<open>!attestation || !attestation->pbCredentialId ||
  attestation->cbCredentialId == 0\<close>, the bytes
  \<^verbatim>\<open>[pbCredentialId, pbCredentialId + cbCredentialId)\<close> that are copied, and the
  guarded release \<^verbatim>\<open>if (attestation) WebAuthNFreeCredentialAttestation(attestation)\<close>.
\<close>

definition missing_credential_id :: "WEBAUTHN_CREDENTIAL_ATTESTATION option \<Rightarrow> bool" where
  "missing_credential_id attestation =
     (case attestation of
        None \<Rightarrow> True
      | Some a \<Rightarrow> pbCredentialId a = None \<or> cbCredentialId a = 0)"

definition credential_id_copy :: "WEBAUTHN_CREDENTIAL_ATTESTATION option \<Rightarrow> byte list" where
  "credential_id_copy attestation =
     (case attestation of
        None \<Rightarrow> []
      | Some a \<Rightarrow>
          (case pbCredentialId a of
             None \<Rightarrow> []
           | Some m \<Rightarrow> map m [0..<unat (cbCredentialId a)]))"

definition free_attestation ::
  "WEBAUTHN_CREDENTIAL_ATTESTATION option \<Rightarrow> process \<Rightarrow> process" where
  "free_attestation attestation s =
     (if attestation \<noteq> None then log Call_FreeCredentialAttestation s else s)"

definition free_assertion :: "bool \<Rightarrow> process \<Rightarrow> process" where
  "free_assertion assertion s = (if assertion then log Call_FreeAssertion s else s)"

subsection \<open>Asynchronous variant\<close>

record AsyncContext =
  error :: "error option"
  bool_result :: bool
  buffer_result :: "byte list"
  rp_id :: wstring
  rp_name :: wstring
  user_name :: wstring
  parent_hwnd :: HWND
  credential_id :: "byte list"
  do_is_available :: bool
  do_make_credential :: bool
  do_get_assertion :: bool

text \<open>\<^verbatim>\<open>new AsyncContext()\<close>; an empty \<^verbatim>\<open>error\<close> text is \<open>None\<close>.\<close>

definition new_AsyncContext :: AsyncContext where
  "new_AsyncContext =
     \<lparr>error = None, bool_result = False, buffer_result = [], rp_id = [], rp_name = [],
      user_name = [], parent_hwnd = 0, credential_id = [], do_is_available = False,
      do_make_credential = False, do_get_assertion = False\<rparr>"

definition Execute_make_credential ::
  "platform \<Rightarrow> AsyncContext \<Rightarrow> process \<Rightarrow> AsyncContext \<times> process" where
  "Execute_make_credential p ctx s =
     (case GetRandomBytes p 32 s of
        (None, s) \<Rightarrow>
          (ctx\<lparr>error := Some (RandomBytesFailed ''Failed to generate random bytes'')\<rparr>, s)
      | (Some challenge, s) \<Rightarrow>
          (case GetRandomBytes p 32 s of
             (None, s) \<Rightarrow>
               (ctx\<lparr>error := Some (RandomBytesFailed ''Failed to generate random bytes'')\<rparr>, s)
           | (Some userId, s) \<Rightarrow>
               (let call = make_credential_call (parent_hwnd ctx) (rp_id ctx) (rp_name ctx)
                             (user_name ctx) challenge userId;
                    (hr, attestation) = WebAuthNAuthenticatorMakeCredential p call;
                    s = log (Call_MakeCredential call) s
                in if FAILED hr then
                     (ctx\<lparr>error := Some (MakeCredentialFailed hr)\<rparr>,
                      free_attestation attestation s)
                   else if missing_credential_id attestation then
                     (ctx\<lparr>error := Some MissingCredentialId\<rparr>,
                      free_attestation attestation s)
                   else
                     (ctx\<lparr>buffer_result := credential_id_copy attestation\<rparr>,
                      log Call_FreeCredentialAttestation s))))"

definition Execute_get_assertion ::
  "platform \<Rightarrow> AsyncContext \<Rightarrow> process \<Rightarrow> AsyncContext \<times> process" where
  "Execute_get_assertion p ctx s =
     (if credential_id ctx = [] then (ctx\<lparr>error := Some CredentialIdRequired\<rparr>, s)
      else
        case GetRandomBytes p 32 s of
          (None, s) \<Rightarrow>
            (ctx\<lparr>error := Some (RandomBytesFailed ''Failed to generate random challenge'')\<rparr>,
             s)
        | (Some challenge, s) \<Rightarrow>
            (let call = get_assertion_call (parent_hwnd ctx) (rp_id ctx) (credential_id ctx)
                          challenge;
                 (hr, assertion) = WebAuthNAuthenticatorGetAssertion p call;
                 s = log (Call_GetAssertion call) s
             in if FAILED hr then
                  (ctx\<lparr>error := Some (GetAssertionFailed hr)\<rparr>, free_assertion assertion s)
                else (ctx\<lparr>bool_result := True\<rparr>, free_assertion assertion s)))"

definition Execute :: "platform \<Rightarrow> AsyncContext \<Rightarrow> process \<Rightarrow> AsyncContext \<times> process" where
  "Execute p ctx s =
     (if do_is_available ctx then
        (let (hr, available) = IsUserVerifyingPlatformAuthenticatorAvailable p;
             s = log Call_IsUserVerifyingPlatformAuthenticatorAvailable s
         in if FAILED hr then (ctx\<lparr>error := Some (IsAvailableFailed hr)\<rparr>, s)
            else (ctx\<lparr>bool_result := available\<rparr>, s))
      else if rp_id ctx = [] then (ctx\<lparr>error := Some RpIdRequired\<rparr>, s)
      else if do_make_credential ctx then Execute_make_credential p ctx s
      else if do_get_assertion ctx then Execute_get_assertion p ctx s
      else (ctx\<lparr>error := Some InvalidOperation\<rparr>, s))"

definition Complete :: "AsyncContext \<Rightarrow> process \<Rightarrow> outcome \<times> process" where
  "Complete ctx s =
     (case error ctx of
        Some e \<Rightarrow> (Inl e, log (Call_reject_deferred e) s)
      | None \<Rightarrow>
          if buffer_result ctx \<noteq> [] then
            (Inr (ResultBuffer (buffer_result ctx)),
             log (Call_resolve_deferred (ResultBuffer (buffer_result ctx))) s)
          else
            (Inr (ResultBoolean (bool_result ctx)),
             log (Call_resolve_deferred (ResultBoolean (bool_result ctx))) s))"

text \<open>
  The work queued by \<^verbatim>\<open>PromiseFromWork\<close>: \<^verbatim>\<open>Execute\<close> on a worker thread, then
  \<^verbatim>\<open>Complete\<close>, which settles the promise. The outcome is the one the promise
  settles with.
\<close>

definition PromiseFromWork :: "platform \<Rightarrow> AsyncContext \<Rightarrow> process \<Rightarrow> outcome \<times> process" where
  "PromiseFromWork p ctx s = (let (ctx, s) = Execute p ctx s in Complete ctx s)"

definition IsAvailable :: "platform \<Rightarrow> napi_value list \<Rightarrow> process \<Rightarrow> outcome \<times> process" where
  "IsAvailable p argv s = PromiseFromWork p (new_AsyncContext\<lparr>do_is_available := True\<rparr>) s"

definition CreateCredential :: "platform \<Rightarrow> napi_value list \<Rightarrow> process \<Rightarrow> outcome \<times> process" where
  "CreateCredential p argv s =
     (if length argv < 3 then
        throw_error (TypeError ''createCredential(rpId, rpName, userName, hwndBuffer?)'') s
      else
        case (GetStringArg (argv ! 0), GetStringArg (argv ! 1), GetStringArg (argv ! 2)) of
          (Some rpId, Some rpName, Some userName) \<Rightarrow>
            (let hwnd = hwnd_argument argv 3;
                 ctx = new_AsyncContext
                   \<lparr>do_make_credential := True,
                    rp_id := Utf8ToWide p rpId,
                    rp_name := Utf8ToWide p rpName,
                    user_name := Utf8ToWide p userName,
                    parent_hwnd := hwnd\<rparr>
             in PromiseFromWork p ctx s)
        | _ \<Rightarrow> throw_error (TypeError ''createCredential expects strings'') s)"

definition GetAssertion :: "platform \<Rightarrow> napi_value list \<Rightarrow> process \<Rightarrow> outcome \<times> process" where
  "GetAssertion p argv s =
     (if length argv < 2 then
        throw_error (TypeError ''getAssertion(rpId, credentialIdBuffer, hwndBuffer?)'') s
      else
        case GetStringArg (argv ! 0) of
          None \<Rightarrow> throw_error (TypeError ''rpId must be a string'') s
        | Some rpId \<Rightarrow>
            (case GetBufferArg (argv ! 1) of
               None \<Rightarrow> throw_error (TypeError ''credentialId must be a Buffer'') s
             | Some credId \<Rightarrow>
                 (let hwnd = hwnd_argument argv 2;
                      ctx = new_AsyncContext
                        \<lparr>do_get_assertion := True,
                         rp_id := Utf8ToWide p rpId,
                         credential_id := credId,
                         parent_hwnd := hwnd\<rparr>
                  in PromiseFromWork p ctx s)))"

subsection \<open>Synchronous variant\<close>

definition IsAvailableSync :: "platform \<Rightarrow> napi_value list \<Rightarrow> process \<Rightarrow> outcome \<times> process" where
  "IsAvailableSync p argv s =
     (let (did_init, s) = ScopedCoInit p s;
          (r, s) =
            (if \<not> did_init then throw_error ComInitializationFailed s
             else
               let (sec, s) = EnsureComSecurityInitialized p s in
               if FAILED sec then throw_error (CoInitializeSecurityFailed sec) s
               else
                 let (hr, available) = IsUserVerifyingPlatformAuthenticatorAvailable p;
                     s = log Call_IsUserVerifyingPlatformAuthenticatorAvailable s
                 in if FAILED hr then throw_error (IsAvailableFailed hr) s
                    else (Inr (ResultBoolean available), s))
      in (r, ScopedCoInit_destructor did_init s))"

text \<open>
  The window that \<^verbatim>\<open>CreateCredentialSync\<close> passes to the platform: it tries once
  more to bring \<open>hwnd\<close> to the foreground, reads the foreground window again and
  chooses.
\<close>

definition CreateCredentialSync_window :: "platform \<Rightarrow> HWND \<Rightarrow> process \<Rightarrow> HWND \<times> process" where
  "CreateCredentialSync_window p hwnd s =
     (let fgHwnd = GetForegroundWindow (windows s);
          (fgHwnd, s) =
            (if hwnd \<noteq> 0 \<and> IsWindow (windows s) hwnd then
               let s = s\<lparr>windows := SetForegroundWindow_effect p hwnd (windows s)\<rparr>
               in (GetForegroundWindow (windows s), s)
             else (fgHwnd, s));
          ws = windows s;
          webauthnHwnd =
            (if hwnd \<noteq> 0 \<and> IsWindow ws hwnd \<and> hwnd = fgHwnd then hwnd
             else if fgHwnd \<noteq> 0 \<and> IsWindow ws fgHwnd then fgHwnd
             else if hwnd \<noteq> 0 \<and> IsWindow ws hwnd then hwnd
             else 0);
          webauthnHwnd =
            (if webauthnHwnd = 0 \<or> \<not> IsWindow ws webauthnHwnd then GetDesktopWindow ws
             else webauthnHwnd)
      in (webauthnHwnd, s))"

definition CreateCredentialSync_ceremony ::
  "platform \<Rightarrow> string \<Rightarrow> string \<Rightarrow> string \<Rightarrow> HWND \<Rightarrow> bool \<Rightarrow> process \<Rightarrow> outcome \<times> process" where
  "CreateCredentialSync_ceremony p rpId rpName userName hwnd did_init s =
     (if \<not> did_init then throw_error ComInitializationFailed s
      else
        let (sec, s) = EnsureComSecurityInitialized p s in
        if FAILED sec then throw_error (CoInitializeSecurityFailed sec) s
        else
          let s = s\<lparr>windows := BringToForeground p hwnd (windows s)\<rparr> in
          case GetRandomBytes p 32 s of
            (None, s) \<Rightarrow>
              throw_error (RandomBytesFailed ''Failed to generate random challenge'') s
          | (Some challenge, s) \<Rightarrow>
              (case GetRandomBytes p 32 s of
                 (None, s) \<Rightarrow>
                   throw_error (RandomBytesFailed ''Failed to generate random userId'') s
               | (Some userId, s) \<Rightarrow>
                   (let rpIdW = Utf8ToWide p rpId;
                        rpNameW = Utf8ToWide p rpName;
                        userNameW = Utf8ToWide p userName;
                        (webauthnHwnd, s) = CreateCredentialSync_window p hwnd s;
                        call = make_credential_call webauthnHwnd rpIdW rpNameW userNameW
                                 challenge userId;
                        (hr, attestation) = WebAuthNAuthenticatorMakeCredential p call;
                        s = log (Call_MakeCredential call) s
                    in if FAILED hr then
                         throw_error (MakeCredentialFailed hr) (free_attestation attestation s)
                       else if missing_credential_id attestation then
                         throw_error MissingCredentialId (free_attestation attestation s)
                       else
                         (Inr (ResultBuffer (credential_id_copy attestation)),
                          log Call_FreeCredentialAttestation s))))"

definition CreateCredentialSync :: "platform \<Rightarrow> napi_value list \<Rightarrow> process \<Rightarrow> outcome \<times> process" where
  "CreateCredentialSync p argv s =
     (case (if length argv < 3 then None
            else
              case (GetStringArg (argv ! 0), GetStringArg (argv ! 1), GetStringArg (argv ! 2)) of
                (Some rpId, Some rpName, Some userName) \<Rightarrow> Some (rpId, rpName, userName)
              | _ \<Rightarrow> None) of
        None \<Rightarrow>
          throw_error
            (TypeError
               ''Expected (rpId: string, rpName: string, userName: string, hwnd?: Buffer)'') s
      | Some (rpId, rpName, userName) \<Rightarrow>
          (let hwnd = hwnd_argument argv 3;
               hwnd = GetValidHwndForWebAuthn (windows s) hwnd;
               (did_init, s) = ScopedCoInit p s;
               (r, s) = CreateCredentialSync_ceremony p rpId rpName userName hwnd did_init s
           in (r, ScopedCoInit_destructor did_init s)))"

text \<open>The window that \<^verbatim>\<open>GetAssertionSync\<close> passes to the platform.\<close>

definition GetAssertionSync_window :: "HWND \<Rightarrow> window_system \<Rightarrow> HWND" where
  "GetAssertionSync_window hwnd ws =
     (let fgHwnd = GetForegroundWindow ws;
          webauthnHwnd = (if fgHwnd \<noteq> 0 then fgHwnd else hwnd);
          webauthnHwnd =
            (if webauthnHwnd = 0 \<or> \<not> IsWindow ws webauthnHwnd then GetActiveWindow ws
             else webauthnHwnd);
          webauthnHwnd =
            (if webauthnHwnd = 0 \<or> \<not> IsWindow ws webauthnHwnd then GetDesktopWindow ws
             else webauthnHwnd)
      in webauthnHwnd)"

definition GetAssertionSync_ceremony ::
  "platform \<Rightarrow> string \<Rightarrow> byte list \<Rightarrow> HWND \<Rightarrow> bool \<Rightarrow> process \<Rightarrow> outcome \<times> process" where
  "GetAssertionSync_ceremony p rpId credId hwnd did_init s =
     (if \<not> did_init then throw_error ComInitializationFailed s
      else
        let (sec, s) = EnsureComSecurityInitialized p s in
        if FAILED sec then throw_error (CoInitializeSecurityFailed sec) s
        else
          let s = s\<lparr>windows := BringToForeground p hwnd (windows s)\<rparr> in
          case GetRandomBytes p 32 s of
            (None, s) \<Rightarrow>
              throw_error (RandomBytesFailed ''Failed to generate random challenge'') s
          | (Some challenge, s) \<Rightarrow>
              (let rpIdW = Utf8ToWide p rpId;
                   webauthnHwnd = GetAssertionSync_window hwnd (windows s);
                   call = get_assertion_call webauthnHwnd rpIdW credId challenge;
                   (hr, assertion) = WebAuthNAuthenticatorGetAssertion p call;
                   s = log (Call_GetAssertion call) s
               in if FAILED hr then
                    throw_error (GetAssertionFailed hr) (free_assertion assertion s)
                  else (Inr (ResultBoolean True), free_assertion assertion s)))"

definition GetAssertionSync :: "platform \<Rightarrow> napi_value list \<Rightarrow> process \<Rightarrow> outcome \<times> process" where
  "GetAssertionSync p argv s =
     (case (if length argv < 2 then None
            else
              case (GetStringArg (argv ! 0), GetBufferArg (argv ! 1)) of
                (Some rpId, Some credId) \<Rightarrow> Some (rpId, credId)
              | _ \<Rightarrow> None) of
        None \<Rightarrow>
          throw_error
            (TypeError ''Expected (rpId: string, credentialId: Buffer, hwnd?: Buffer)'') s
      | Some (rpId, credId) \<Rightarrow>
          (let hwnd = hwnd_argument argv 2;
               hwnd = GetValidHwndForWebAuthn (windows s) hwnd;
               (did_init, s) = ScopedCoInit p s;
               (r, s) = GetAssertionSync_ceremony p rpId credId hwnd did_init s
           in (r, ScopedCoInit_destructor did_init s)))"

section \<open>Observations\<close>

text \<open>The events that a run adds to the trace of the process it starts from.\<close>

definition events_since :: "process \<Rightarrow> process \<Rightarrow> event list" where
  "events_since s s' = drop (length (trace s)) (trace s')"

text \<open>An event that reports an outcome to the caller.\<close>

fun reports :: "event \<Rightarrow> bool" where
  "reports (Call_throw_error e) = True"
| "reports (Call_reject_deferred e) = True"
| "reports (Call_resolve_deferred r) = True"
| "reports e = False"

text \<open>The status that the first call of the security initialisation caches.\<close>

definition cached_status :: "platform \<Rightarrow> process \<Rightarrow> HRESULT" where
  "cached_status p s =
     (if CoInitializeSecurity p (security_calls s) = RPC_E_TOO_LATE then S_OK
      else CoInitializeSecurity p (security_calls s))"

text \<open>
  The events before the authenticator is called (\<open>preparatory\<close>), and the events
  that neither call the authenticator nor release one of its results
  (\<open>incidental\<close>).
\<close>

fun preparatory :: "event \<Rightarrow> bool" where
  "preparatory (Call_CoInitializeEx model) = True"
| "preparatory Call_CoInitializeSecurity = True"
| "preparatory (Call_BCryptGenRandom n) = True"
| "preparatory e = False"

fun incidental :: "event \<Rightarrow> bool" where
  "incidental (Call_MakeCredential call) = False"
| "incidental (Call_GetAssertion call) = False"
| "incidental Call_FreeCredentialAttestation = False"
| "incidental Call_FreeAssertion = False"
| "incidental e = True"

text \<open>
  What a creation ceremony that reached the platform is to report, given the status
  and the attestation the platform answered with, and the releases owed to the
  attestation.
\<close>

definition expected_outcome :: "HRESULT \<Rightarrow> WEBAUTHN_CREDENTIAL_ATTESTATION option \<Rightarrow> outcome" where
  "expected_outcome hr attestation =
     (if FAILED hr then Inl (MakeCredentialFailed hr)
      else if missing_credential_id attestation then Inl MissingCredentialId
      else Inr (ResultBuffer (credential_id_copy attestation)))"

definition release_events :: "WEBAUTHN_CREDENTIAL_ATTESTATION option \<Rightarrow> event list" where
  "release_events attestation =
     (if attestation = None then [] else [Call_FreeCredentialAttestation])"

text \<open>
  A run that reached the platform with \<open>call\<close>: preparatory events, the call, the
  release of the attestation if there is one, then incidental events only; and the
  outcome \<open>r\<close> is the expected one.
\<close>

definition reached :: "platform \<Rightarrow> MakeCredentialCall \<Rightarrow> outcome \<Rightarrow> event list \<Rightarrow> bool" where
  "reached p call r evs =
     (let hr = fst (WebAuthNAuthenticatorMakeCredential p call);
          attestation = snd (WebAuthNAuthenticatorMakeCredential p call)
      in r = expected_outcome hr attestation \<and>
         (\<exists>pre post. list_all preparatory pre \<and> list_all incidental post \<and>
            evs = pre @ Call_MakeCredential call # release_events attestation @ post))"

section \<open>A concrete platform\<close>

text \<open>
  A desktop with two windows, of which \<open>0x20020\<close> belongs to the process and is in the
  foreground, and an authenticator that rejects an empty relying-party id or an empty
  credential id with \<^verbatim>\<open>NTE_INVALID_PARAMETER\<close> and otherwise creates the credential
  id \<open>[1, 2]\<close>.
\<close>

definition example_windows :: window_system where
  "example_windows =
     \<lparr>IsWindow = (\<lambda>h. h = 0x10010 \<or> h = 0x20020),
      GetForegroundWindow = 0x20020,
      GetActiveWindow = 0,
      GetDesktopWindow = 0x10010,
      EnumWindows_order = [0x10010, 0x20020],
      WindowProcessId = (\<lambda>h. if h = 0x20020 then 4242 else 4),
      IsWindowVisible = (\<lambda>h. True),
      GetCurrentProcessId = 4242\<rparr>"

definition NTE_INVALID_PARAMETER :: HRESULT where
  "NTE_INVALID_PARAMETER = 0x80090027"

definition example_platform :: platform where
  "example_platform =
     \<lparr>CoInitializeEx = (\<lambda>model. S_OK),
      CoInitializeSecurity = (\<lambda>k. if k = 0 then RPC_E_TOO_LATE else E_FAIL),
      BCryptGenRandom = (\<lambda>k n. Some (replicate n (of_nat k))),
      MultiByteToWideChar = widen,
      IsUserVerifyingPlatformAuthenticatorAvailable = (S_OK, True),
      WebAuthNAuthenticatorMakeCredential =
        (\<lambda>call. if rp_pwszId (mc_rpInfo call) = [] then (NTE_INVALID_PARAMETER, None)
                else (S_OK, Some \<lparr>cbCredentialId = 2,
                                   pbCredentialId = Some (\<lambda>i. of_nat (Suc i))\<rparr>)),
      WebAuthNAuthenticatorGetAssertion =
        (\<lambda>call. if ga_pwszRpId call = [] \<or>
                   list_ex (\<lambda>c. cred_pbId c = []) (ga_CredentialList (ga_options call))
                then (NTE_INVALID_PARAMETER, False)
                else (S_OK, True)),
      BringToForeground_effect = (\<lambda>hwnd ws. ws\<lparr>GetForegroundWindow := hwnd\<rparr>),
      SetForegroundWindow_effect = (\<lambda>hwnd ws. ws\<lparr>GetForegroundWindow := hwnd\<rparr>)\<rparr>"

text \<open>A platform whose security initialisation fails, to watch the cached failure.\<close>

definition failing_platform :: platform where
  "failing_platform = example_platform\<lparr>CoInitializeSecurity := (\<lambda>k. if k = 0 then E_FAIL else S_OK)\<rparr>"

text \<open>
  Arguments of the calls that are run on this platform: a creation with empty names,
  a creation with a window handle that is no window, a creation with an empty
  relying-party id and an assertion with an empty credential id.
\<close>

definition example_argv :: "napi_value list" where
  "example_argv = [String ''example.com'', String [], String []]"

definition dead_handle_argv :: "napi_value list" where
  "dead_handle_argv =
     [String ''example.com'', String ''Example'', String ''alice'',
      Buffer [0xEF, 0xBE, 0xAD, 0xDE, 0, 0, 0, 0]]"

definition empty_rpId_argv :: "napi_value list" where
  "empty_rpId_argv = [String [], String ''X'', String ''Y'']"

definition empty_credentialId_argv :: "napi_value list" where
  "empty_credentialId_argv = [String ''example.com'', Buffer []]"

text \<open>The call that the synchronous creation with empty names makes.\<close>

definition example_call :: MakeCredentialCall where
  "example_call =
     make_credential_call 0x20020 (widen ''example.com'') [] [] (replicate 32 0)
       (replicate 32 1)"

text \<open>A platform that reports success and returns an attestation without credential id.\<close>

definition forgetful_platform :: platform where
  "forgetful_platform = example_platform
     \<lparr>WebAuthNAuthenticatorMakeCredential :=
        (\<lambda>call. (S_OK, Some \<lparr>cbCredentialId = 0, pbCredentialId = None\<rparr>))\<rparr>"

section \<open>Properties of the encoders\<close>

lemma pop_back_padding_rev:
  "pop_back_padding s = rev (dropWhile (\<lambda>ch. ch = CHR ''='') (rev s))"
proof (induction s rule: pop_back_padding.induct)
  case (1 s)
  show ?case
  proof (cases "s \<noteq> [] \<and> last s = CHR ''=''")
    case True
    then obtain t where t: "s = t @ [CHR ''='']"
      by (metis append_butlast_last_id)
    with 1 True show ?thesis
      by (subst pop_back_padding.simps) simp
  next
    case False
    then have "dropWhile (\<lambda>ch. ch = CHR ''='') (rev s) = rev s"
      by (cases s rule: rev_cases) auto
    with False show ?thesis
      by (subst pop_back_padding.simps) auto
  qed
qed

lemma base64_digit_in_alphabet:
  "n < 64 \<Longrightarrow> base64_digit n \<in> set base64_alphabet"
  unfolding base64_digit_def by (rule nth_mem) (simp add: base64_alphabet_def)

lemma base64_alphabet_no_padding: "CHR ''='' \<notin> set base64_alphabet"
  by (simp add: base64_alphabet_def)

lemma base64_digit_no_padding: "n < 64 \<Longrightarrow> base64_digit n \<noteq> CHR ''=''"
  using base64_digit_in_alphabet base64_alphabet_no_padding by metis

lemma byte_bound: "unat (a :: byte) < 256"
  using unsigned_less [of a, where 'a = nat] by simp

lemma sextet_bounds:
  "unat (a :: byte) div 4 < 64"
  "(unat (a :: byte) mod 4) * 16 < 64"
  "(unat (a :: byte) mod 4) * 16 + unat (b :: byte) div 16 < 64"
  "(unat (b :: byte) mod 16) * 4 < 64"
  "(unat (b :: byte) mod 16) * 4 + unat (c :: byte) div 64 < 64"
  "unat (c :: byte) mod 64 < 64"
  using byte_bound [of a] byte_bound [of b] byte_bound [of c] by simp_all

lemma sextet_digits:
  "base64_digit (unat (a :: byte) div 4) \<noteq> CHR ''=''"
  "base64_digit ((unat (a :: byte) mod 4) * 16) \<noteq> CHR ''=''"
  "base64_digit ((unat (a :: byte) mod 4) * 16 + unat (b :: byte) div 16) \<noteq> CHR ''=''"
  "base64_digit ((unat (b :: byte) mod 16) * 4) \<noteq> CHR ''=''"
  "base64_digit ((unat (b :: byte) mod 16) * 4 + unat (c :: byte) div 64) \<noteq> CHR ''=''"
  "base64_digit (unat (c :: byte) mod 64) \<noteq> CHR ''=''"
  by (rule base64_digit_no_padding, rule sextet_bounds)+

lemma base64_text_shape:
  "\<exists>body k. base64_text bs = body @ replicate k (CHR ''='') \<and> CHR ''='' \<notin> set body"
proof (induction bs rule: base64_text.induct)
  case 1
  show ?case by simp
next
  case (2 a)
  let ?q = "[base64_digit (unat a div 4), base64_digit ((unat a mod 4) * 16)]"
  have "base64_text [a] = ?q @ replicate 2 (CHR ''='')"
    by (simp add: numeral_2_eq_2)
  moreover have "\<forall>x \<in> set ?q. x \<noteq> CHR ''=''"
    by (simp add: sextet_digits)
  then have "CHR ''='' \<notin> set ?q" by blast
  ultimately show ?case by blast
next
  case (3 a b)
  let ?q = "[base64_digit (unat a div 4), base64_digit ((unat a mod 4) * 16 + unat b div 16),
       base64_digit ((unat b mod 16) * 4)]"
  have "base64_text [a, b] = ?q @ replicate 1 (CHR ''='')"
    by simp
  moreover have "\<forall>x \<in> set ?q. x \<noteq> CHR ''=''"
    by (simp add: sextet_digits)
  then have "CHR ''='' \<notin> set ?q" by blast
  ultimately show ?case by blast
next
  case (4 a b c rest)
  then obtain body k where r: "base64_text rest = body @ replicate k (CHR ''='')"
    and nb: "CHR ''='' \<notin> set body"
    by blast
  let ?q = "[base64_digit (unat a div 4), base64_digit ((unat a mod 4) * 16 + unat b div 16),
       base64_digit ((unat b mod 16) * 4 + unat c div 64), base64_digit (unat c mod 64)]"
  have "base64_text (a # b # c # rest) = (?q @ body) @ replicate k (CHR ''='')"
    using r by simp
  moreover have "\<forall>x \<in> set ?q. x \<noteq> CHR ''=''"
    by (simp add: sextet_digits)
  then have "CHR ''='' \<notin> set (?q @ body)" using nb by auto
  ultimately show ?case by blast
qed

lemma url_char_padding: "url_char ch = CHR ''='' \<longleftrightarrow> ch = CHR ''=''"
  by (simp add: url_char_def)

lemma url_char_not_plus_slash: "url_char ch \<noteq> CHR ''+'' \<and> url_char ch \<noteq> CHR ''/''"
  by (simp add: url_char_def)

lemma base64url_spec_clean:
  "CHR ''+'' \<notin> set (base64url_spec data) \<and> CHR ''/'' \<notin> set (base64url_spec data) \<and>
   CHR ''='' \<notin> set (base64url_spec data)"
proof -
  obtain body k where s: "base64_text data = body @ replicate k (CHR ''='')"
    and nb: "CHR ''='' \<notin> set body"
    using base64_text_shape by blast
  have "dropWhile (\<lambda>ch. ch = CHR ''='') (replicate k (CHR ''='') @ rev (map url_char body))
      = dropWhile (\<lambda>ch. ch = CHR ''='') (rev (map url_char body))"
    by (rule dropWhile_append2) simp
  also have "\<dots> = rev (map url_char body)"
    using nb by (cases body rule: rev_cases) (auto simp: url_char_padding)
  finally have e: "base64url_spec data = map url_char body"
    by (simp add: base64url_spec_def s url_char_def rev_map)
  show ?thesis
    unfolding e using nb by (auto simp: url_char_def split: if_splits)
qed

lemma NUL_not_padding: "NUL \<noteq> CHR ''=''"
  by (simp add: NUL_def)

lemma Base64UrlEncode_refines: "Base64UrlEncode data = base64url_spec data"
proof (cases "data = []")
  case True
  then show ?thesis by (simp add: Base64UrlEncode_def base64url_spec_def)
next
  case False
  then show ?thesis
    by (simp add: Base64UrlEncode_def CryptBinaryToStringA_def base64url_spec_def
        pop_back_padding_rev Let_def)
qed

text \<open>
  Claim C6. For every byte sequence, \<open>Base64UrlEncode\<close> returns the standard Base64
  text with \<open>+\<close> remapped to \<open>-\<close>, \<open>/\<close> remapped to \<open>_\<close> and the trailing \<open>=\<close>
  padding stripped; the text holds no \<open>+\<close>, no \<open>/\<close> and no \<open>=\<close>; and the empty
  sequence gives the empty text. The encoder is a function of the bytes alone, so
  it is total and deterministic.
\<close>

theorem Base64UrlEncode_base64url:
  "Base64UrlEncode data = base64url_spec data \<and>
   CHR ''+'' \<notin> set (Base64UrlEncode data) \<and>
   CHR ''/'' \<notin> set (Base64UrlEncode data) \<and>
   CHR ''='' \<notin> set (Base64UrlEncode data) \<and>
   Base64UrlEncode [] = []"
  using base64url_spec_clean [of data]
  by (simp add: Base64UrlEncode_refines) (simp add: base64url_spec_def)

theorem Base64UrlEncode_base64url_witness:
  "Base64UrlEncode [0xFB, 0xFF] = ''-_8'' \<and> base64_text [0xFB, 0xFF] = ''+/8=''"
  using Base64UrlEncode_base64url [of "[0xFB, 0xFF]"]
  by (simp add: base64url_spec_def base64_digit_def base64_alphabet_def url_char_def)

section \<open>Properties of the client data\<close>

lemma WideToUtf8_utf8: "WideToUtf8 w = utf8_of_utf16 w"
  by (simp add: WideToUtf8_def WideCharToMultiByte_def Let_def)

lemma unat_of_char16: "unat (of_char c :: wchar) = of_char c"
proof -
  have "unat (of_nat (of_char c) :: wchar) = of_char c mod 2 ^ 16"
    by (simp add: unat_of_nat)
  moreover have "(of_char c :: nat) < 2 ^ 16"
    by (rule order_less_trans [OF nat_of_char_less_256]) simp
  ultimately show ?thesis
    by (simp add: of_nat_of_char)
qed

lemma utf8_of_utf16_ascii:
  "list_all (\<lambda>c. of_char c < (128 :: nat)) s \<Longrightarrow>
   utf8_of_utf16 (widen s @ us) = s @ utf8_of_utf16 us"
  by (induction s) (simp_all add: widen_def utf8_of_utf16.simps(2) unat_of_char16)

lemma utf8_of_utf16_origin:
  "utf8_of_utf16 (kOriginPrefix @ rpId) = ''https://'' @ utf8_of_utf16 rpId"
  unfolding kOriginPrefix_def by (rule utf8_of_utf16_ascii) simp

text \<open>
  Claim C5. For every ceremony type (in particular \<open>webauthn.create\<close> and
  \<open>webauthn.get\<close>), relying-party id and challenge, \<open>MakeClientDataJson\<close> returns the
  bytes of one fixed text: the four fields \<open>type\<close>, \<open>challenge\<close>, \<open>origin\<close> and
  \<open>crossOrigin\<close> in this order, the challenge Base64url-encoded, the origin
  \<open>https://\<close> followed by the relying-party id (in UTF-8) and \<open>crossOrigin\<close> the
  literal \<open>false\<close>. The result is a function of the three arguments alone, so
  repeated calls give identical bytes. Nothing is escaped: the statement is about
  the bytes written.
\<close>

theorem MakeClientDataJson_document:
  \<open>MakeClientDataJson type rpId challenge =
     map of_char
       (''{"type":"'' @ type @
        ''","challenge":"'' @ Base64UrlEncode challenge @
        ''","origin":"'' @ (''https://'' @ WideToUtf8 rpId) @
        ''","crossOrigin":false}'')\<close>
  by (simp add: MakeClientDataJson_def WideToUtf8_utf8 utf8_of_utf16_origin)

section \<open>Properties of the process security context\<close>

lemma EnsureComSecurityInitialized_cached:
  "once s \<Longrightarrow> EnsureComSecurityInitialized p s = (result s, s)"
  by (simp add: EnsureComSecurityInitialized_def)

lemma EnsureComSecurityInitialized_calls_cached:
  "once s \<Longrightarrow> EnsureComSecurityInitialized_calls p n s = (replicate n (result s), s)"
  by (induction n) (simp_all add: EnsureComSecurityInitialized_cached)

lemma EnsureComSecurityInitialized_first:
  "\<not> once s \<Longrightarrow> EnsureComSecurityInitialized p s =
     (cached_status p s,
      s\<lparr>once := True, result := cached_status p s, security_calls := Suc (security_calls s),
        trace := trace s @ [Call_CoInitializeSecurity]\<rparr>)"
  by (simp add: EnsureComSecurityInitialized_def cached_status_def log_def Let_def)

text \<open>
  Claim C3. In a process that has not yet initialised its security context, any
  sequence of one or more calls of \<open>EnsureComSecurityInitialized\<close> calls
  \<^verbatim>\<open>CoInitializeSecurity\<close> exactly once, in the first call; every call returns
  the same status, which stays cached whether it is a success or a failure; and the
  status \<^verbatim>\<open>RPC_E_TOO_LATE\<close> of the platform is returned as the success \<^verbatim>\<open>S_OK\<close>.
\<close>

theorem EnsureComSecurityInitialized_once:
  assumes "\<not> once s"
    and "EnsureComSecurityInitialized_calls p (Suc n) s = (hrs, s')"
  shows "hrs = replicate (Suc n) (cached_status p s) \<and>
         events_since s s' = [Call_CoInitializeSecurity] \<and>
         security_calls s' = Suc (security_calls s) \<and>
         once s' \<and> result s' = cached_status p s \<and>
         (CoInitializeSecurity p (security_calls s) = RPC_E_TOO_LATE \<longrightarrow>
            cached_status p s = S_OK \<and> SUCCEEDED (cached_status p s))"
  using assms
  by (auto simp: EnsureComSecurityInitialized_first EnsureComSecurityInitialized_calls_cached
      events_since_def cached_status_def S_OK_def SUCCEEDED_def)

theorem EnsureComSecurityInitialized_once_witness:
  "\<not> once (start example_windows) \<and>
   CoInitializeSecurity example_platform 0 = RPC_E_TOO_LATE \<and>
   fst (EnsureComSecurityInitialized_calls example_platform (Suc 2) (start example_windows))
     = [S_OK, S_OK, S_OK] \<and>
   events_since (start example_windows)
     (snd (EnsureComSecurityInitialized_calls example_platform (Suc 2) (start example_windows)))
     = [Call_CoInitializeSecurity] \<and>
   fst (EnsureComSecurityInitialized_calls failing_platform (Suc 2) (start example_windows))
     = [E_FAIL, E_FAIL, E_FAIL] \<and>
   events_since (start example_windows)
     (snd (EnsureComSecurityInitialized_calls failing_platform (Suc 2) (start example_windows)))
     = [Call_CoInitializeSecurity]"
proof -
  have fresh: "\<not> once (start example_windows)"
    by (simp add: start_def)
  have too_late: "CoInitializeSecurity example_platform 0 = RPC_E_TOO_LATE"
    by (simp add: example_platform_def)
  have ok: "cached_status example_platform (start example_windows) = S_OK"
    by (simp add: cached_status_def start_def example_platform_def)
  have broken: "cached_status failing_platform (start example_windows) = E_FAIL"
    by (simp add: cached_status_def start_def failing_platform_def example_platform_def
        E_FAIL_def RPC_E_TOO_LATE_def)
  show ?thesis
    using EnsureComSecurityInitialized_once [OF fresh surjective_pairing, of example_platform 2]
      EnsureComSecurityInitialized_once [OF fresh surjective_pairing, of failing_platform 2]
    by (simp add: fresh too_late ok broken numeral_2_eq_2)
qed

section \<open>Properties of the window focus resolver\<close>

lemma EnumWindows_find_own_window:
  "EnumWindows (find_own_window ws) hs \<lparr>targetPid = GetCurrentProcessId ws, foundHwnd = f\<rparr> =
     \<lparr>targetPid = GetCurrentProcessId ws,
      foundHwnd = (case find (own_visible_window ws) hs of Some h \<Rightarrow> h | None \<Rightarrow> f)\<rparr>"
  by (induction hs) (auto simp: find_own_window_def own_visible_window_def)

lemma find_enumerated:
  "enumerates_windows ws \<Longrightarrow> find P (EnumWindows_order ws) = Some h \<Longrightarrow> live_window ws h"
  by (auto simp: enumerates_windows_def list_all_iff find_Some_iff)

text \<open>
  Without any assumption on the window system: the enumeration stops at the first
  visible window of the current process, and that window is returned if
  \<^verbatim>\<open>IsWindow\<close> still accepts it.
\<close>

lemma GetValidHwndForWebAuthn_steps:
  "GetValidHwndForWebAuthn ws hwnd =
     (if live_window ws hwnd then hwnd
      else if live_window ws (GetForegroundWindow ws) then GetForegroundWindow ws
      else if live_window ws (GetActiveWindow ws) then GetActiveWindow ws
      else case find (own_visible_window ws) (EnumWindows_order ws) of
             Some h \<Rightarrow> if live_window ws h then h else 0
           | None \<Rightarrow> 0)"
  by (simp add: GetValidHwndForWebAuthn_def live_window_def EnumWindows_find_own_window
      Let_def split: option.split)

text \<open>
  Claim C7. For every caller-supplied handle, null or dead or live, in a window
  system whose enumeration visits existing windows, \<open>GetValidHwndForWebAuthn\<close>
  returns the first success of: the caller's handle if it is a live window; else the
  foreground window; else the active window; else the first visible top-level window
  of the current process in enumeration order; else null.
\<close>

theorem GetValidHwndForWebAuthn_resolution_order:
  assumes "enumerates_windows ws"
  shows "GetValidHwndForWebAuthn ws hwnd = resolution_order ws hwnd"
proof (cases "find (own_visible_window ws) (EnumWindows_order ws)")
  case None
  then show ?thesis
    by (simp add: GetValidHwndForWebAuthn_def resolution_order_def live_window_def
        EnumWindows_find_own_window Let_def)
next
  case (Some h)
  with assms have "live_window ws h"
    by (rule find_enumerated)
  with Some show ?thesis
    by (simp add: GetValidHwndForWebAuthn_def resolution_order_def live_window_def
        EnumWindows_find_own_window Let_def)
qed

section \<open>Shape of a creation ceremony\<close>

lemma preparatory_incidental: "list_all preparatory pre \<Longrightarrow> list_all incidental pre"
  by (induction pre) (auto elim: preparatory.elims)

lemma preparatory_no_reports: "list_all preparatory pre \<Longrightarrow> \<not> list_ex reports pre"
  by (induction pre) (auto elim: preparatory.elims)

lemma incidental_events:
  assumes "list_all incidental evs"
  shows "Call_MakeCredential call \<notin> set evs" "Call_GetAssertion acall \<notin> set evs"
    "Call_FreeCredentialAttestation \<notin> set evs"
  using assms by (induction evs) auto

lemma trace_ScopedCoInit:
  "\<exists>evs. list_all preparatory evs \<and> trace (snd (ScopedCoInit p s)) = trace s @ evs"
  by (simp add: ScopedCoInit_def log_def Let_def)

lemma trace_EnsureComSecurityInitialized:
  "\<exists>evs. list_all preparatory evs \<and>
     trace (snd (EnsureComSecurityInitialized p s)) = trace s @ evs"
  by (simp add: EnsureComSecurityInitialized_def log_def Let_def)

lemma trace_CreateCredentialSync_window:
  "trace (snd (CreateCredentialSync_window p hwnd s)) = trace s"
  by (simp add: CreateCredentialSync_window_def Let_def)

lemma early_failure:
  assumes "run = throw_error e s'" and "trace s' = trace s @ pre" and "list_all preparatory pre"
  shows "\<exists>evs. trace (snd run) = trace s @ evs \<and> list_all incidental evs"
  using assms preparatory_incidental [of pre]
  by (simp add: throw_error_def log_def)

lemma immediate_failure:
  assumes "run = throw_error e s"
  shows "\<exists>evs. trace (snd run) = trace s @ evs \<and> list_all incidental evs"
  using assms by (simp add: throw_error_def log_def)

lemma reachedI:
  assumes "r = expected_outcome (fst (WebAuthNAuthenticatorMakeCredential p call))
                 (snd (WebAuthNAuthenticatorMakeCredential p call))"
    and "list_all preparatory pre" and "list_all incidental post"
    and "evs = pre @ Call_MakeCredential call #
           release_events (snd (WebAuthNAuthenticatorMakeCredential p call)) @ post"
  shows "reached p call r evs"
  unfolding reached_def Let_def using assms by blast

lemma reached_extend:
  assumes "reached p call r evs" and "list_all preparatory before" and "list_all incidental after"
  shows "reached p call r (before @ evs @ after)"
proof -
  let ?att = "snd (WebAuthNAuthenticatorMakeCredential p call)"
  from assms(1) obtain pre post where r: "r = expected_outcome
      (fst (WebAuthNAuthenticatorMakeCredential p call)) ?att"
    and pre: "list_all preparatory pre" and post: "list_all incidental post"
    and evs: "evs = pre @ Call_MakeCredential call # release_events ?att @ post"
    unfolding reached_def Let_def by blast
  show ?thesis
  proof (rule reachedI [OF r])
    show "list_all preparatory (before @ pre)"
      using assms(2) pre by simp
    show "list_all incidental (post @ after)"
      using assms(3) post by simp
    show "before @ evs @ after =
        (before @ pre) @ Call_MakeCredential call # release_events ?att @ post @ after"
      by (simp add: evs)
  qed
qed

lemma missing_credential_id_None: "missing_credential_id None"
  by (simp add: missing_credential_id_def)

lemma CreateCredentialSync_ceremony_shape:
  fixes p rpId rpName userName hwnd did_init s
  defines "run \<equiv> CreateCredentialSync_ceremony p rpId rpName userName hwnd did_init s"
  shows "\<exists>evs. trace (snd run) = trace s @ evs \<and>
     (list_all incidental evs \<or>
      (\<exists>hWnd challenge userId.
         reached p (make_credential_call hWnd (Utf8ToWide p rpId) (Utf8ToWide p rpName)
                     (Utf8ToWide p userName) challenge userId) (fst run) evs))"
proof (cases did_init)
  case False
  then have "run = throw_error ComInitializationFailed s"
    by (simp add: run_def CreateCredentialSync_ceremony_def)
  then show ?thesis
    using immediate_failure by blast
next
  case init: True
  define sec where "sec = fst (EnsureComSecurityInitialized p s)"
  define s1 where "s1 = snd (EnsureComSecurityInitialized p s)"
  have E: "EnsureComSecurityInitialized p s = (sec, s1)"
    by (simp add: sec_def s1_def)
  obtain evs1 where evs1: "list_all preparatory evs1" "trace s1 = trace s @ evs1"
    unfolding s1_def using trace_EnsureComSecurityInitialized by blast
  show ?thesis
  proof (cases "FAILED sec")
    case True
    with init E have "run = throw_error (CoInitializeSecurityFailed sec) s1"
      by (simp add: run_def CreateCredentialSync_ceremony_def)
    then show ?thesis
      using early_failure evs1 by blast
  next
    case sec_ok: False
    define s2 where "s2 = s1\<lparr>windows := BringToForeground p hwnd (windows s1)\<rparr>"
    define s3 where
      "s3 = log (Call_BCryptGenRandom 32) (s2\<lparr>random_calls := Suc (random_calls s2)\<rparr>)"
    have t3: "trace s3 = trace s @ (evs1 @ [Call_BCryptGenRandom 32])"
      by (simp add: s3_def s2_def log_def evs1)
    have p3: "list_all preparatory (evs1 @ [Call_BCryptGenRandom 32])"
      using evs1 by simp
    show ?thesis
    proof (cases "BCryptGenRandom p (random_calls s2) 32")
      case None
      then have "GetRandomBytes p 32 s2 = (None, s3)"
        by (simp add: GetRandomBytes_def s3_def)
      with init E sec_ok
      have "run = throw_error (RandomBytesFailed ''Failed to generate random challenge'') s3"
        by (simp add: run_def CreateCredentialSync_ceremony_def s2_def)
      then show ?thesis
        using early_failure t3 p3 by blast
    next
      case (Some challenge)
      then have R1: "GetRandomBytes p 32 s2 = (Some challenge, s3)"
        by (simp add: GetRandomBytes_def s3_def)
      define s4 where
        "s4 = log (Call_BCryptGenRandom 32) (s3\<lparr>random_calls := Suc (random_calls s3)\<rparr>)"
      let ?pre = "evs1 @ [Call_BCryptGenRandom 32, Call_BCryptGenRandom 32]"
      have t4: "trace s4 = trace s @ ?pre"
        by (simp add: s4_def log_def t3)
      have p4: "list_all preparatory ?pre"
        using evs1 by simp
      show ?thesis
      proof (cases "BCryptGenRandom p (random_calls s3) 32")
        case None
        then have "GetRandomBytes p 32 s3 = (None, s4)"
          by (simp add: GetRandomBytes_def s4_def)
        with init E sec_ok R1
        have "run = throw_error (RandomBytesFailed ''Failed to generate random userId'') s4"
          by (simp add: run_def CreateCredentialSync_ceremony_def s2_def)
        then show ?thesis
          using early_failure t4 p4 by blast
      next
        case (Some userId)
        then have R2: "GetRandomBytes p 32 s3 = (Some userId, s4)"
          by (simp add: GetRandomBytes_def s4_def)
        define hWnd where "hWnd = fst (CreateCredentialSync_window p hwnd s4)"
        define s5 where "s5 = snd (CreateCredentialSync_window p hwnd s4)"
        have W: "CreateCredentialSync_window p hwnd s4 = (hWnd, s5)"
          by (simp add: hWnd_def s5_def)
        have t5: "trace s5 = trace s @ ?pre"
          by (simp add: s5_def trace_CreateCredentialSync_window t4)
        define call where "call = make_credential_call hWnd (Utf8ToWide p rpId)
          (Utf8ToWide p rpName) (Utf8ToWide p userName) challenge userId"
        define hr where "hr = fst (WebAuthNAuthenticatorMakeCredential p call)"
        define att where "att = snd (WebAuthNAuthenticatorMakeCredential p call)"
        have A: "WebAuthNAuthenticatorMakeCredential p call = (hr, att)"
          by (simp add: hr_def att_def)
        define post where "post =
          (case expected_outcome hr att of Inl e \<Rightarrow> [Call_throw_error e] | Inr v \<Rightarrow> [])"
        have run: "run =
          (if FAILED hr then
             throw_error (MakeCredentialFailed hr)
               (free_attestation att (log (Call_MakeCredential call) s5))
           else if missing_credential_id att then
             throw_error MissingCredentialId
               (free_attestation att (log (Call_MakeCredential call) s5))
           else
             (Inr (ResultBuffer (credential_id_copy att)),
              log Call_FreeCredentialAttestation (log (Call_MakeCredential call) s5)))"
          using init E sec_ok R1 R2 W A [unfolded call_def]
          by (simp add: run_def CreateCredentialSync_ceremony_def s2_def call_def)
        have out: "fst run = expected_outcome hr att"
          by (simp add: run expected_outcome_def throw_error_def)
        have tr: "trace (snd run) =
            trace s @ (?pre @ Call_MakeCredential call # release_events att @ post)"
          by (auto simp: run post_def expected_outcome_def release_events_def
              free_attestation_def throw_error_def log_def t5 missing_credential_id_None)
        have "list_all incidental post"
          by (simp add: post_def split: sum.split)
        with out p4 have "reached p call (fst run)
            (?pre @ Call_MakeCredential call # release_events att @ post)"
          unfolding hr_def att_def
          by (intro reachedI [where pre = "?pre" and post = post]) simp_all
        with tr show ?thesis
          unfolding call_def by blast
      qed
    qed
  qed
qed

lemma trace_ScopedCoInit_destructor:
  "\<exists>evs. list_all incidental evs \<and> trace (ScopedCoInit_destructor d s) = trace s @ evs"
  by (simp add: ScopedCoInit_destructor_def log_def)

lemma CreateCredentialSync_shape:
  fixes p argv s
  defines "run \<equiv> CreateCredentialSync p argv s"
  shows "\<exists>evs. trace (snd run) = trace s @ evs \<and>
     (list_all incidental evs \<or>
      (\<exists>hWnd rpId rpName userName challenge userId.
         3 \<le> length argv \<and> argv ! 0 = String rpId \<and> argv ! 1 = String rpName \<and>
         argv ! 2 = String userName \<and>
         reached p (make_credential_call hWnd (Utf8ToWide p rpId) (Utf8ToWide p rpName)
                     (Utf8ToWide p userName) challenge userId) (fst run) evs))"
proof -
  define parsed where "parsed =
    (if length argv < 3 then None
     else
       case (GetStringArg (argv ! 0), GetStringArg (argv ! 1), GetStringArg (argv ! 2)) of
         (Some rpId, Some rpName, Some userName) \<Rightarrow> Some (rpId, rpName, userName)
       | _ \<Rightarrow> None)"
  show ?thesis
  proof (cases parsed)
    case None
    then have "run = throw_error (TypeError
        ''Expected (rpId: string, rpName: string, userName: string, hwnd?: Buffer)'') s"
      unfolding run_def CreateCredentialSync_def parsed_def [symmetric] by simp
    then show ?thesis
      using immediate_failure by blast
  next
    case (Some triple)
    obtain rpId rpName userName where triple: "triple = (rpId, rpName, userName)"
      by (cases triple)
    have args: "3 \<le> length argv \<and> argv ! 0 = String rpId \<and> argv ! 1 = String rpName \<and>
        argv ! 2 = String userName"
      using Some unfolding triple parsed_def GetStringArg_def
      by (simp split: if_splits napi_value.splits)
    define hwnd where "hwnd = GetValidHwndForWebAuthn (windows s) (hwnd_argument argv 3)"
    define did_init where "did_init = fst (ScopedCoInit p s)"
    define s1 where "s1 = snd (ScopedCoInit p s)"
    have C: "ScopedCoInit p s = (did_init, s1)"
      by (simp add: did_init_def s1_def)
    obtain evs1 where evs1: "list_all preparatory evs1" "trace s1 = trace s @ evs1"
      unfolding s1_def using trace_ScopedCoInit by blast
    define inner where "inner = CreateCredentialSync_ceremony p rpId rpName userName hwnd did_init s1"
    have run: "run = (fst inner, ScopedCoInit_destructor did_init (snd inner))"
      using Some C unfolding run_def CreateCredentialSync_def parsed_def [symmetric] triple
      by (simp add: hwnd_def inner_def split_beta Let_def)
    obtain evs3 where evs3: "list_all incidental evs3"
      "trace (ScopedCoInit_destructor did_init (snd inner)) = trace (snd inner) @ evs3"
      using trace_ScopedCoInit_destructor by blast
    obtain evs2 where t2: "trace (snd inner) = trace s1 @ evs2"
      and shape: "list_all incidental evs2 \<or>
        (\<exists>hWnd challenge userId.
           reached p (make_credential_call hWnd (Utf8ToWide p rpId) (Utf8ToWide p rpName)
                       (Utf8ToWide p userName) challenge userId) (fst inner) evs2)"
      unfolding inner_def using CreateCredentialSync_ceremony_shape by blast
    have tr: "trace (snd run) = trace s @ (evs1 @ evs2 @ evs3)"
      by (simp add: run evs3 t2 evs1)
    from shape show ?thesis
    proof
      assume "list_all incidental evs2"
      then have "list_all incidental (evs1 @ evs2 @ evs3)"
        using evs3 preparatory_incidental [OF evs1(1)] by simp
      with tr show ?thesis by blast
    next
      assume "\<exists>hWnd challenge userId.
           reached p (make_credential_call hWnd (Utf8ToWide p rpId) (Utf8ToWide p rpName)
                       (Utf8ToWide p userName) challenge userId) (fst inner) evs2"
      then obtain hWnd challenge userId where
        "reached p (make_credential_call hWnd (Utf8ToWide p rpId) (Utf8ToWide p rpName)
                       (Utf8ToWide p userName) challenge userId) (fst inner) evs2"
        by blast
      then have "reached p (make_credential_call hWnd (Utf8ToWide p rpId) (Utf8ToWide p rpName)
                       (Utf8ToWide p userName) challenge userId) (fst run) (evs1 @ evs2 @ evs3)"
        using reached_extend evs1(1) evs3(1) by (simp add: run)
      with tr args show ?thesis by blast
    qed
  qed
qed

lemma credential_id_copy_present:
  "\<not> missing_credential_id attestation \<Longrightarrow> credential_id_copy attestation \<noteq> []"
  by (auto simp: missing_credential_id_def credential_id_copy_def unat_gt_0
      split: option.splits)

lemma PromiseFromWork_create_shape:
  fixes p s h r n u
  defines "ctx \<equiv> new_AsyncContext\<lparr>do_make_credential := True, rp_id := r, rp_name := n,
      user_name := u, parent_hwnd := h\<rparr>"
  defines "run \<equiv> PromiseFromWork p ctx s"
  shows "\<exists>evs. trace (snd run) = trace s @ evs \<and>
     (list_all incidental evs \<or>
      (\<exists>challenge userId. reached p (make_credential_call h r n u challenge userId) (fst run) evs))"
proof (cases "r = []")
  case True
  then have "trace (snd run) = trace s @ [Call_reject_deferred RpIdRequired]"
    by (simp add: run_def PromiseFromWork_def Execute_def Complete_def ctx_def
        new_AsyncContext_def log_def)
  moreover have "list_all incidental [Call_reject_deferred RpIdRequired]"
    by simp
  ultimately show ?thesis by blast
next
  case rp: False
  have flags: "\<not> do_is_available ctx" "rp_id ctx \<noteq> []" "do_make_credential ctx"
    "error ctx = None" "parent_hwnd ctx = h" "rp_id ctx = r" "rp_name ctx = n"
    "user_name ctx = u"
    using rp by (simp_all add: ctx_def new_AsyncContext_def)
  have run: "run = (let (ctx, s) = Execute_make_credential p ctx s in Complete ctx s)"
    using flags by (simp add: run_def PromiseFromWork_def Execute_def)
  define s3 where
    "s3 = log (Call_BCryptGenRandom 32) (s\<lparr>random_calls := Suc (random_calls s)\<rparr>)"
  show ?thesis
  proof (cases "BCryptGenRandom p (random_calls s) 32")
    case None
    then have "GetRandomBytes p 32 s = (None, s3)"
      by (simp add: GetRandomBytes_def s3_def)
    then have "trace (snd run) = trace s @ [Call_BCryptGenRandom 32,
        Call_reject_deferred (RandomBytesFailed ''Failed to generate random bytes'')]"
      by (simp add: run Execute_make_credential_def Complete_def s3_def log_def)
    moreover have "list_all incidental [Call_BCryptGenRandom 32,
        Call_reject_deferred (RandomBytesFailed ''Failed to generate random bytes'')]"
      by simp
    ultimately show ?thesis by blast
  next
    case (Some challenge)
    then have R1: "GetRandomBytes p 32 s = (Some challenge, s3)"
      by (simp add: GetRandomBytes_def s3_def)
    define s4 where
      "s4 = log (Call_BCryptGenRandom 32) (s3\<lparr>random_calls := Suc (random_calls s3)\<rparr>)"
    let ?pre = "[Call_BCryptGenRandom 32, Call_BCryptGenRandom 32]"
    have t4: "trace s4 = trace s @ ?pre"
      by (simp add: s4_def s3_def log_def)
    show ?thesis
    proof (cases "BCryptGenRandom p (random_calls s3) 32")
      case None
      then have "GetRandomBytes p 32 s3 = (None, s4)"
        by (simp add: GetRandomBytes_def s4_def)
      with R1 have "trace (snd run) = trace s @ [Call_BCryptGenRandom 32,
          Call_BCryptGenRandom 32,
          Call_reject_deferred (RandomBytesFailed ''Failed to generate random bytes'')]"
        by (simp add: run Execute_make_credential_def Complete_def t4 log_def)
      moreover have "list_all incidental [Call_BCryptGenRandom 32, Call_BCryptGenRandom 32,
          Call_reject_deferred (RandomBytesFailed ''Failed to generate random bytes'')]"
        by simp
      ultimately show ?thesis by blast
    next
      case (Some userId)
      then have R2: "GetRandomBytes p 32 s3 = (Some userId, s4)"
        by (simp add: GetRandomBytes_def s4_def)
      define call where "call = make_credential_call h r n u challenge userId"
      define hr where "hr = fst (WebAuthNAuthenticatorMakeCredential p call)"
      define att where "att = snd (WebAuthNAuthenticatorMakeCredential p call)"
      have A: "WebAuthNAuthenticatorMakeCredential p call = (hr, att)"
        by (simp add: hr_def att_def)
      define post where "post =
        (case expected_outcome hr att of
           Inl e \<Rightarrow> [Call_reject_deferred e]
         | Inr v \<Rightarrow> [Call_resolve_deferred v])"
      have exec: "Execute_make_credential p ctx s =
          (if FAILED hr then
             (ctx\<lparr>error := Some (MakeCredentialFailed hr)\<rparr>,
              free_attestation att (log (Call_MakeCredential call) s4))
           else if missing_credential_id att then
             (ctx\<lparr>error := Some MissingCredentialId\<rparr>,
              free_attestation att (log (Call_MakeCredential call) s4))
           else
             (ctx\<lparr>buffer_result := credential_id_copy att\<rparr>,
              log Call_FreeCredentialAttestation (log (Call_MakeCredential call) s4)))"
        using R1 R2 A [unfolded call_def] flags
        by (simp add: Execute_make_credential_def call_def)
      have out: "fst run = expected_outcome hr att"
        using flags credential_id_copy_present [of att]
        by (simp add: run exec Complete_def expected_outcome_def)
      have tr: "trace (snd run) =
          trace s @ (?pre @ Call_MakeCredential call # release_events att @ post)"
        using flags credential_id_copy_present [of att]
        by (auto simp: run exec Complete_def post_def expected_outcome_def release_events_def
            free_attestation_def log_def t4 missing_credential_id_None)
      have "list_all incidental post"
        by (simp add: post_def split: sum.split)
      with out have "reached p call (fst run)
          (?pre @ Call_MakeCredential call # release_events att @ post)"
        unfolding hr_def att_def
        by (intro reachedI [where pre = "?pre" and post = post]) simp_all
      with tr show ?thesis
        unfolding call_def by blast
    qed
  qed
qed

lemma CreateCredential_shape:
  fixes p argv s
  defines "run \<equiv> CreateCredential p argv s"
  shows "\<exists>evs. trace (snd run) = trace s @ evs \<and>
     (list_all incidental evs \<or>
      (\<exists>rpId rpName userName challenge userId.
         3 \<le> length argv \<and> argv ! 0 = String rpId \<and> argv ! 1 = String rpName \<and>
         argv ! 2 = String userName \<and>
         reached p (make_credential_call (hwnd_argument argv 3) (Utf8ToWide p rpId)
                     (Utf8ToWide p rpName) (Utf8ToWide p userName) challenge userId)
           (fst run) evs))"
proof (cases "length argv < 3")
  case True
  then have "run = throw_error
      (TypeError ''createCredential(rpId, rpName, userName, hwndBuffer?)'') s"
    by (simp add: run_def CreateCredential_def)
  then show ?thesis
    using immediate_failure by blast
next
  case len: False
  let ?strings = "throw_error (TypeError ''createCredential expects strings'') s"
  show ?thesis
  proof (cases "\<exists>rpId rpName userName. argv ! 0 = String rpId \<and> argv ! 1 = String rpName \<and>
      argv ! 2 = String userName")
    case False
    then have "run = ?strings"
      using len unfolding run_def CreateCredential_def GetStringArg_def
      by (auto split: napi_value.splits)
    then show ?thesis
      using immediate_failure by blast
  next
    case True
    then obtain rpId rpName userName where args: "argv ! 0 = String rpId"
      "argv ! 1 = String rpName" "argv ! 2 = String userName"
      by blast
    have "run = PromiseFromWork p
        (new_AsyncContext\<lparr>do_make_credential := True, rp_id := Utf8ToWide p rpId,
           rp_name := Utf8ToWide p rpName, user_name := Utf8ToWide p userName,
           parent_hwnd := hwnd_argument argv 3\<rparr>) s"
      using len args by (simp add: run_def CreateCredential_def GetStringArg_def)
    then show ?thesis
      using PromiseFromWork_create_shape [where p = p and s = s and r = "Utf8ToWide p rpId"
          and n = "Utf8ToWide p rpName" and u = "Utf8ToWide p userName"
          and h = "hwnd_argument argv 3"] len args
      by auto
  qed
qed

lemma reached_call:
  assumes "reached p c r evs" and "Call_MakeCredential call \<in> set evs"
  shows "call = c"
proof -
  obtain pre post where "list_all preparatory pre" and post: "list_all incidental post"
    and evs: "evs = pre @ Call_MakeCredential c #
      release_events (snd (WebAuthNAuthenticatorMakeCredential p c)) @ post"
    using assms(1) unfolding reached_def Let_def by blast
  then have "list_all incidental pre"
    using preparatory_incidental by blast
  then show ?thesis
    using assms(2) post incidental_events(1) [of pre call] incidental_events(1) [of post call]
    by (auto simp: evs release_events_def split: if_splits)
qed

lemma create_credential_reaches:
  assumes "run = CreateCredential p argv s \<or> run = CreateCredentialSync p argv s"
    and "Call_MakeCredential call \<in> set (events_since s (snd run))"
  shows "\<exists>hWnd rpId rpName userName challenge userId.
      3 \<le> length argv \<and> argv ! 0 = String rpId \<and> argv ! 1 = String rpName \<and>
      argv ! 2 = String userName \<and>
      call = make_credential_call hWnd (Utf8ToWide p rpId) (Utf8ToWide p rpName)
               (Utf8ToWide p userName) challenge userId \<and>
      reached p call (fst run) (events_since s (snd run))"
proof -
  have "\<exists>evs. trace (snd run) = trace s @ evs \<and>
     (list_all incidental evs \<or>
      (\<exists>hWnd rpId rpName userName challenge userId.
         3 \<le> length argv \<and> argv ! 0 = String rpId \<and> argv ! 1 = String rpName \<and>
         argv ! 2 = String userName \<and>
         reached p (make_credential_call hWnd (Utf8ToWide p rpId) (Utf8ToWide p rpName)
                     (Utf8ToWide p userName) challenge userId) (fst run) evs))"
    using assms(1) CreateCredential_shape [of p argv s] CreateCredentialSync_shape [of p argv s]
    by blast
  then obtain evs where tr: "trace (snd run) = trace s @ evs"
    and shape: "list_all incidental evs \<or>
      (\<exists>hWnd rpId rpName userName challenge userId.
         3 \<le> length argv \<and> argv ! 0 = String rpId \<and> argv ! 1 = String rpName \<and>
         argv ! 2 = String userName \<and>
         reached p (make_credential_call hWnd (Utf8ToWide p rpId) (Utf8ToWide p rpName)
                     (Utf8ToWide p userName) challenge userId) (fst run) evs)"
    by blast
  have evs: "events_since s (snd run) = evs"
    by (simp add: events_since_def tr)
  from assms(2) have mem: "Call_MakeCredential call \<in> set evs"
    by (simp add: evs)
  then have "\<not> list_all incidental evs"
    using incidental_events(1) by blast
  with shape obtain hWnd rpId rpName userName challenge userId where
    args: "3 \<le> length argv" "argv ! 0 = String rpId" "argv ! 1 = String rpName"
      "argv ! 2 = String userName"
    and r: "reached p (make_credential_call hWnd (Utf8ToWide p rpId) (Utf8ToWide p rpName)
                     (Utf8ToWide p userName) challenge userId) (fst run) evs"
    by blast
  from reached_call [OF r mem] r args show ?thesis
    unfolding evs by blast
qed

section \<open>Properties of the creation ceremony\<close>

lemma SUCCEEDED_not_FAILED: "SUCCEEDED hr \<longleftrightarrow> \<not> FAILED hr"
  by (auto simp: SUCCEEDED_def FAILED_def)

lemma count_list_incidental:
  "list_all incidental evs \<Longrightarrow> count_list evs Call_FreeCredentialAttestation = 0"
  by (induction evs) auto

text \<open>
  Claim C4. For every \<open>createCredential\<close> call, asynchronous or synchronous, that
  reaches the platform: if the platform call succeeds and the attestation is absent
  or has an absent or empty credential id, the outcome is the error
  \<open>MissingCredentialId\<close>; if it succeeds otherwise, the outcome is a copy of exactly
  the \<open>cbCredentialId\<close> bytes at \<open>pbCredentialId\<close>; if it fails, the outcome is the
  platform failure. On every one of these outcomes the attestation, when the
  platform returned one, is released exactly once, after the platform call and
  before any event that reports the outcome.
\<close>

theorem create_credential_result:
  assumes "run = CreateCredential p argv s \<or> run = CreateCredentialSync p argv s"
    and "Call_MakeCredential call \<in> set (events_since s (snd run))"
    and "WebAuthNAuthenticatorMakeCredential p call = (hr, attestation)"
  shows "(SUCCEEDED hr \<and> missing_credential_id attestation \<longrightarrow>
            fst run = Inl MissingCredentialId) \<and>
         (SUCCEEDED hr \<and> \<not> missing_credential_id attestation \<longrightarrow>
            fst run = Inr (ResultBuffer (credential_id_copy attestation))) \<and>
         (FAILED hr \<longrightarrow> fst run = Inl (MakeCredentialFailed hr)) \<and>
         count_list (events_since s (snd run)) Call_FreeCredentialAttestation =
           (if attestation = None then 0 else 1) \<and>
         (attestation \<noteq> None \<longrightarrow>
            (\<exists>before after.
               events_since s (snd run) = before @ Call_FreeCredentialAttestation # after \<and>
               Call_MakeCredential call \<in> set before \<and> \<not> list_ex reports before))"
proof -
  from create_credential_reaches [OF assms(1,2)]
  have "reached p call (fst run) (events_since s (snd run))"
    by blast
  then obtain pre post where out: "fst run = expected_outcome hr attestation"
    and pre: "list_all preparatory pre" and post: "list_all incidental post"
    and evs: "events_since s (snd run) =
      pre @ Call_MakeCredential call # release_events attestation @ post"
    unfolding reached_def Let_def assms(3) by auto
  have outcome: "(SUCCEEDED hr \<and> missing_credential_id attestation \<longrightarrow>
            fst run = Inl MissingCredentialId) \<and>
         (SUCCEEDED hr \<and> \<not> missing_credential_id attestation \<longrightarrow>
            fst run = Inr (ResultBuffer (credential_id_copy attestation))) \<and>
         (FAILED hr \<longrightarrow> fst run = Inl (MakeCredentialFailed hr))"
    by (simp add: out expected_outcome_def SUCCEEDED_not_FAILED)
  have once: "count_list (events_since s (snd run)) Call_FreeCredentialAttestation =
           (if attestation = None then 0 else 1)"
    using count_list_incidental [OF preparatory_incidental [OF pre]]
      count_list_incidental [OF post]
    by (simp add: evs release_events_def)
  have before: "\<exists>before after.
               events_since s (snd run) = before @ Call_FreeCredentialAttestation # after \<and>
               Call_MakeCredential call \<in> set before \<and> \<not> list_ex reports before"
    if "attestation \<noteq> None"
  proof (intro exI conjI)
    show "events_since s (snd run) =
        (pre @ [Call_MakeCredential call]) @ Call_FreeCredentialAttestation # post"
      using that by (simp add: evs release_events_def)
    show "Call_MakeCredential call \<in> set (pre @ [Call_MakeCredential call])"
      by simp
    show "\<not> list_ex reports (pre @ [Call_MakeCredential call])"
      using preparatory_no_reports [OF pre] by simp
  qed
  from outcome once before show ?thesis
    by blast
qed

text \<open>
  Claim C8. For every \<open>createCredential\<close> call, asynchronous or synchronous, that
  reaches the platform, the call offers exactly two public-key algorithms, ES256
  (ECDSA P-256 with SHA-256) first and RS256 (RSASSA-PKCS1-v1_5 with SHA-256)
  second, asks for the platform attachment, requires user verification, asks for the
  attestation conveyance "none" and sets a timeout of 60000 milliseconds.
\<close>

theorem create_credential_options:
  assumes "run = CreateCredential p argv s \<or> run = CreateCredentialSync p argv s"
    and "Call_MakeCredential call \<in> set (events_since s (snd run))"
  shows "mc_coseList call =
           [\<lparr>pwszCredentialType = WEBAUTHN_CREDENTIAL_TYPE_PUBLIC_KEY,
             lAlg = WEBAUTHN_COSE_ALGORITHM_ECDSA_P256_WITH_SHA256\<rparr>,
            \<lparr>pwszCredentialType = WEBAUTHN_CREDENTIAL_TYPE_PUBLIC_KEY,
             lAlg = WEBAUTHN_COSE_ALGORITHM_RSASSA_PKCS1_V1_5_WITH_SHA256\<rparr>] \<and>
         mc_dwAuthenticatorAttachment (mc_options call) =
           WEBAUTHN_AUTHENTICATOR_ATTACHMENT_PLATFORM \<and>
         mc_dwUserVerificationRequirement (mc_options call) =
           WEBAUTHN_USER_VERIFICATION_REQUIREMENT_REQUIRED \<and>
         mc_dwAttestationConveyancePreference (mc_options call) =
           WEBAUTHN_ATTESTATION_CONVEYANCE_PREFERENCE_NONE \<and>
         mc_dwTimeoutMilliseconds (mc_options call) = 60000"
proof -
  from create_credential_reaches [OF assms]
  obtain hWnd rpId rpName userName challenge userId where
    "call = make_credential_call hWnd (Utf8ToWide p rpId) (Utf8ToWide p rpName)
               (Utf8ToWide p userName) challenge userId"
    by blast
  then show ?thesis
    by (simp add: make_credential_call_def)
qed

text \<open>
  Claim C10. For every \<open>createCredential\<close> call, asynchronous or synchronous, that
  reaches the platform: if the supplied relying-party name is empty, the
  relying-party id is passed as the name of the relying party; if the supplied user
  name is empty, the text \<open>Netcatty\<close> is passed as the user name and as the user
  display name.
\<close>

theorem create_credential_names:
  assumes "run = CreateCredential p argv s \<or> run = CreateCredentialSync p argv s"
    and "Call_MakeCredential call \<in> set (events_since s (snd run))"
  shows "\<exists>rpId rpName userName.
           argv ! 0 = String rpId \<and> argv ! 1 = String rpName \<and> argv ! 2 = String userName \<and>
           rp_pwszId (mc_rpInfo call) = Utf8ToWide p rpId \<and>
           (rpName = [] \<longrightarrow> rp_pwszName (mc_rpInfo call) = Utf8ToWide p rpId) \<and>
           (userName = [] \<longrightarrow>
              user_pwszName (mc_userInfo call) = widen ''Netcatty'' \<and>
              user_pwszDisplayName (mc_userInfo call) = widen ''Netcatty'')"
proof -
  from create_credential_reaches [OF assms]
  obtain hWnd rpId rpName userName challenge userId where
    args: "argv ! 0 = String rpId" "argv ! 1 = String rpName" "argv ! 2 = String userName"
    and call: "call = make_credential_call hWnd (Utf8ToWide p rpId) (Utf8ToWide p rpName)
               (Utf8ToWide p userName) challenge userId"
    by blast
  have "rp_pwszId (mc_rpInfo call) = Utf8ToWide p rpId \<and>
           (rpName = [] \<longrightarrow> rp_pwszName (mc_rpInfo call) = Utf8ToWide p rpId) \<and>
           (userName = [] \<longrightarrow>
              user_pwszName (mc_userInfo call) = widen ''Netcatty'' \<and>
              user_pwszDisplayName (mc_userInfo call) = widen ''Netcatty'')"
    by (simp add: call make_credential_call_def Utf8ToWide_def)
  with args show ?thesis
    by blast
qed

section \<open>Runs on the concrete platform\<close>

lemma example_platform_simps:
  "CoInitializeEx example_platform model = S_OK"
  "CoInitializeSecurity example_platform k = (if k = 0 then RPC_E_TOO_LATE else E_FAIL)"
  "BCryptGenRandom example_platform k n = Some (replicate n (of_nat k))"
  "MultiByteToWideChar example_platform = widen"
  "WebAuthNAuthenticatorMakeCredential example_platform call =
     (if rp_pwszId (mc_rpInfo call) = [] then (NTE_INVALID_PARAMETER, None)
      else (S_OK, Some \<lparr>cbCredentialId = 2, pbCredentialId = Some (\<lambda>i. of_nat (Suc i))\<rparr>))"
  "WebAuthNAuthenticatorGetAssertion example_platform acall =
     (if ga_pwszRpId acall = [] \<or>
         list_ex (\<lambda>c. cred_pbId c = []) (ga_CredentialList (ga_options acall))
      then (NTE_INVALID_PARAMETER, False) else (S_OK, True))"
  "BringToForeground_effect example_platform hwnd ws = ws\<lparr>GetForegroundWindow := hwnd\<rparr>"
  "SetForegroundWindow_effect example_platform hwnd ws = ws\<lparr>GetForegroundWindow := hwnd\<rparr>"
  by (simp_all add: example_platform_def)

lemma example_windows_simps:
  "IsWindow example_windows h \<longleftrightarrow> h = 0x10010 \<or> h = 0x20020"
  "GetForegroundWindow example_windows = 0x20020"
  "GetActiveWindow example_windows = 0"
  "GetDesktopWindow example_windows = 0x10010"
  "EnumWindows_order example_windows = [0x10010, 0x20020]"
  "WindowProcessId example_windows h = (if h = 0x20020 then 4242 else 4)"
  "IsWindowVisible example_windows h"
  "GetCurrentProcessId example_windows = 4242"
  by (simp_all add: example_windows_def)

lemma start_simps:
  "once (start ws) = False" "result (start ws) = E_FAIL" "security_calls (start ws) = 0"
  "random_calls (start ws) = 0" "windows (start ws) = ws" "trace (start ws) = []"
  by (simp_all add: start_def)

lemma status_simps:
  "SUCCEEDED S_OK" "\<not> FAILED S_OK" "FAILED NTE_INVALID_PARAMETER" "FAILED E_FAIL"
  "S_OK \<noteq> RPC_E_CHANGED_MODE" "RPC_E_TOO_LATE \<noteq> S_OK" "E_FAIL \<noteq> RPC_E_TOO_LATE"
  by (simp_all add: SUCCEEDED_def FAILED_def S_OK_def NTE_INVALID_PARAMETER_def E_FAIL_def
      RPC_E_CHANGED_MODE_def RPC_E_TOO_LATE_def)

lemma make_credential_call_simps:
  "mc_hWnd (make_credential_call h r n u c i) = h"
  "rp_pwszId (mc_rpInfo (make_credential_call h r n u c i)) = r"
  by (simp_all add: make_credential_call_def)

lemma get_assertion_call_simps:
  "ga_hWnd (get_assertion_call h r cred c) = h"
  "ga_pwszRpId (get_assertion_call h r cred c) = r"
  "ga_CredentialList (ga_options (get_assertion_call h r cred c)) =
     [\<lparr>cred_pbId = cred, cred_pwszCredentialType = WEBAUTHN_CREDENTIAL_TYPE_PUBLIC_KEY\<rparr>]"
  by (simp_all add: get_assertion_call_def)

lemma upt_0_2: "[0..<2] = [0, Suc 0]"
  by (simp add: numeral_2_eq_2)

lemma widen_Nil: "widen s = [] \<longleftrightarrow> s = []"
  by (simp add: widen_def)

lemma example_resolution:
  "GetValidHwndForWebAuthn example_windows 0 = 0x20020"
  by (simp add: GetValidHwndForWebAuthn_def example_windows_simps)

lemmas evaluation =
  GetStringArg_def GetBufferArg_def hwnd_argument_def ReadHwndFromBuffer_def Utf8ToWide_def
  GetRandomBytes_def throw_error_def log_def ScopedCoInit_def ScopedCoInit_destructor_def
  EnsureComSecurityInitialized_def BringToForeground_def free_attestation_def
  free_assertion_def missing_credential_id_def credential_id_copy_def events_since_def
  example_platform_simps example_windows_simps start_simps status_simps
  make_credential_call_simps get_assertion_call_simps widen_Nil upt_0_2 Let_def

lemma example_CreateCredentialSync:
  "fst (CreateCredentialSync example_platform example_argv (start example_windows)) =
     Inr (ResultBuffer [1, 2]) \<and>
   trace (snd (CreateCredentialSync example_platform example_argv (start example_windows))) =
     [Call_CoInitializeEx COINIT_APARTMENTTHREADED, Call_CoInitializeSecurity,
      Call_BCryptGenRandom 32, Call_BCryptGenRandom 32,
      Call_MakeCredential
        (make_credential_call 0x20020 (widen ''example.com'') [] [] (replicate 32 0)
           (replicate 32 1)),
      Call_FreeCredentialAttestation, Call_CoUninitialize]"
  by (simp add: CreateCredentialSync_def CreateCredentialSync_ceremony_def
      CreateCredentialSync_window_def example_argv_def example_resolution evaluation)


lemma example_CreateCredential:
  "fst (CreateCredential example_platform dead_handle_argv (start example_windows)) =
     Inr (ResultBuffer [1, 2]) \<and>
   snd (CreateCredential example_platform dead_handle_argv (start example_windows)) =
     (start example_windows)
     \<lparr>random_calls := 2,
      trace :=
        [Call_BCryptGenRandom 32, Call_BCryptGenRandom 32,
         Call_MakeCredential
           (make_credential_call 0xDEADBEEF (widen ''example.com'') (widen ''Example'')
              (widen ''alice'') (replicate 32 0) (replicate 32 1)),
         Call_FreeCredentialAttestation,
         Call_resolve_deferred (ResultBuffer [1, 2])]\<rparr>"
  by (simp add: CreateCredential_def PromiseFromWork_def Execute_def
      Execute_make_credential_def Complete_def new_AsyncContext_def dead_handle_argv_def
      word_rcat_def evaluation)

lemma example_empty_rpId:
  "fst (CreateCredentialSync example_platform empty_rpId_argv (start example_windows)) =
     Inl (MakeCredentialFailed NTE_INVALID_PARAMETER) \<and>
   trace (snd (CreateCredentialSync example_platform empty_rpId_argv (start example_windows))) =
     [Call_CoInitializeEx COINIT_APARTMENTTHREADED, Call_CoInitializeSecurity,
      Call_BCryptGenRandom 32, Call_BCryptGenRandom 32,
      Call_MakeCredential
        (make_credential_call 0x20020 [] (widen ''X'') (widen ''Y'') (replicate 32 0)
           (replicate 32 1)),
      Call_throw_error (MakeCredentialFailed NTE_INVALID_PARAMETER), Call_CoUninitialize]"
  by (simp add: CreateCredentialSync_def CreateCredentialSync_ceremony_def
      CreateCredentialSync_window_def empty_rpId_argv_def example_resolution evaluation)

lemma example_empty_credentialId:
  "fst (GetAssertionSync example_platform empty_credentialId_argv (start example_windows)) =
     Inl (GetAssertionFailed NTE_INVALID_PARAMETER) \<and>
   trace (snd (GetAssertionSync example_platform empty_credentialId_argv
      (start example_windows))) =
     [Call_CoInitializeEx COINIT_APARTMENTTHREADED, Call_CoInitializeSecurity,
      Call_BCryptGenRandom 32,
      Call_GetAssertion
        (get_assertion_call 0x20020 (widen ''example.com'') [] (replicate 32 0)),
      Call_throw_error (GetAssertionFailed NTE_INVALID_PARAMETER), Call_CoUninitialize]"
  by (simp add: GetAssertionSync_def GetAssertionSync_ceremony_def
      GetAssertionSync_window_def empty_credentialId_argv_def example_resolution evaluation)

lemma forgetful_platform_simps:
  "BCryptGenRandom forgetful_platform k n = Some (replicate n (of_nat k))"
  "MultiByteToWideChar forgetful_platform = widen"
  "WebAuthNAuthenticatorMakeCredential forgetful_platform call =
     (S_OK, Some \<lparr>cbCredentialId = 0, pbCredentialId = None\<rparr>)"
  by (simp_all add: forgetful_platform_def example_platform_def)

lemma example_missing_credential_id:
  "fst (CreateCredential forgetful_platform example_argv (start example_windows)) =
     Inl MissingCredentialId \<and>
   trace (snd (CreateCredential forgetful_platform example_argv (start example_windows))) =
     [Call_BCryptGenRandom 32, Call_BCryptGenRandom 32,
      Call_MakeCredential
        (make_credential_call 0 (widen ''example.com'') [] [] (replicate 32 0)
           (replicate 32 1)),
      Call_FreeCredentialAttestation, Call_reject_deferred MissingCredentialId]"
  by (simp add: CreateCredential_def PromiseFromWork_def Execute_def
      Execute_make_credential_def Complete_def new_AsyncContext_def example_argv_def
      forgetful_platform_simps evaluation)

lemma example_resolution_dead: "GetValidHwndForWebAuthn example_windows 0xDEADBEEF = 0x20020"
  by (simp add: GetValidHwndForWebAuthn_def example_windows_simps)

lemma example_CreateCredentialSync_dead_handle:
  "snd (CreateCredentialSync example_platform dead_handle_argv (start example_windows)) =
     (start example_windows)
     \<lparr>once := True, result := S_OK, security_calls := 1, random_calls := 2,
      trace :=
        [Call_CoInitializeEx COINIT_APARTMENTTHREADED, Call_CoInitializeSecurity,
         Call_BCryptGenRandom 32, Call_BCryptGenRandom 32,
         Call_MakeCredential
           (make_credential_call 0x20020 (widen ''example.com'') (widen ''Example'')
              (widen ''alice'') (replicate 32 0) (replicate 32 1)),
         Call_FreeCredentialAttestation, Call_CoUninitialize]\<rparr>"
  by (simp add: CreateCredentialSync_def CreateCredentialSync_ceremony_def
      CreateCredentialSync_window_def dead_handle_argv_def example_resolution_dead
      word_rcat_def evaluation)

section \<open>The asynchronous variant\<close>

lemma CreateCredential_empty_rpId:
  assumes "3 \<le> length argv" and "argv ! 0 = String []" and "argv ! 1 = String rpName"
    and "argv ! 2 = String userName"
  shows "CreateCredential p argv s =
           (Inl RpIdRequired, log (Call_reject_deferred RpIdRequired) s)"
  using assms
  by (simp add: CreateCredential_def PromiseFromWork_def Execute_def Complete_def
      new_AsyncContext_def GetStringArg_def Utf8ToWide_def)

lemma GetAssertion_empty_credentialId:
  assumes "2 \<le> length argv" and "argv ! 0 = String rpId" and "argv ! 1 = Buffer []"
  shows "\<exists>e. InvalidArgument e \<and>
           GetAssertion p argv s = (Inl e, log (Call_reject_deferred e) s)"
proof (cases "Utf8ToWide p rpId = []")
  case True
  with assms have "GetAssertion p argv s =
      (Inl RpIdRequired, log (Call_reject_deferred RpIdRequired) s)"
    by (simp add: GetAssertion_def PromiseFromWork_def Execute_def Complete_def
        new_AsyncContext_def GetStringArg_def GetBufferArg_def Let_def)
  then show ?thesis
    by (intro exI [of _ RpIdRequired]) simp
next
  case False
  with assms have "GetAssertion p argv s =
      (Inl CredentialIdRequired, log (Call_reject_deferred CredentialIdRequired) s)"
    by (simp add: GetAssertion_def PromiseFromWork_def Execute_def Execute_get_assertion_def
        Complete_def new_AsyncContext_def GetStringArg_def GetBufferArg_def Let_def)
  then show ?thesis
    by (intro exI [of _ CredentialIdRequired]) simp
qed

lemma CreateCredential_handle:
  assumes "Call_MakeCredential call \<in> set (events_since s (snd (CreateCredential p argv s)))"
  shows "mc_hWnd call = hwnd_argument argv 3"
proof -
  obtain evs where tr: "trace (snd (CreateCredential p argv s)) = trace s @ evs"
    and shape: "list_all incidental evs \<or>
      (\<exists>rpId rpName userName challenge userId.
         3 \<le> length argv \<and> argv ! 0 = String rpId \<and> argv ! 1 = String rpName \<and>
         argv ! 2 = String userName \<and>
         reached p (make_credential_call (hwnd_argument argv 3) (Utf8ToWide p rpId)
                     (Utf8ToWide p rpName) (Utf8ToWide p userName) challenge userId)
           (fst (CreateCredential p argv s)) evs)"
    using CreateCredential_shape [of p argv s] by blast
  have mem: "Call_MakeCredential call \<in> set evs"
    using assms by (simp add: events_since_def tr)
  then have "\<not> list_all incidental evs"
    using incidental_events(1) by blast
  with shape obtain rpId rpName userName challenge userId where
    "reached p (make_credential_call (hwnd_argument argv 3) (Utf8ToWide p rpId)
                     (Utf8ToWide p rpName) (Utf8ToWide p userName) challenge userId)
           (fst (CreateCredential p argv s)) evs"
    by blast
  from reached_call [OF this mem] show ?thesis
    by (simp add: make_credential_call_simps)
qed

lemma Execute_security:
  "once (snd (Execute p ctx s)) = once s \<and>
   security_calls (snd (Execute p ctx s)) = security_calls s"
  by (simp add: Execute_def Execute_make_credential_def Execute_get_assertion_def
      GetRandomBytes_def log_def free_attestation_def free_assertion_def Let_def split_beta
      split: option.split)

lemma PromiseFromWork_security:
  "once (snd (PromiseFromWork p ctx s)) = once s \<and>
   security_calls (snd (PromiseFromWork p ctx s)) = security_calls s"
  using Execute_security [of p ctx s]
  by (simp add: PromiseFromWork_def Complete_def log_def split_beta split: option.split)

lemma asynchronous_security:
  "once (snd (CreateCredential p argv s)) = once s"
  "security_calls (snd (CreateCredential p argv s)) = security_calls s"
  "once (snd (GetAssertion p argv s)) = once s"
  "security_calls (snd (GetAssertion p argv s)) = security_calls s"
  using PromiseFromWork_security
  by (simp_all add: CreateCredential_def GetAssertion_def throw_error_def log_def Let_def
      split: option.split)

section \<open>Witnesses of the creation ceremony and of the resolver\<close>

theorem GetValidHwndForWebAuthn_resolution_order_witness:
  "enumerates_windows example_windows \<and>
   GetValidHwndForWebAuthn example_windows 0x20020 = 0x20020 \<and>
   GetValidHwndForWebAuthn example_windows 0xDEADBEEF = 0x20020 \<and>
   GetValidHwndForWebAuthn (example_windows\<lparr>GetForegroundWindow := 0\<rparr>) 0 = 0x20020 \<and>
   GetValidHwndForWebAuthn
     (example_windows\<lparr>GetForegroundWindow := 0, GetCurrentProcessId := 7\<rparr>) 0 = 0"
proof -
  have e1: "enumerates_windows example_windows"
    by (simp add: enumerates_windows_def live_window_def example_windows_simps)
  have e2: "enumerates_windows (example_windows\<lparr>GetForegroundWindow := 0\<rparr>)"
    by (simp add: enumerates_windows_def live_window_def example_windows_simps)
  have e3: "enumerates_windows
      (example_windows\<lparr>GetForegroundWindow := 0, GetCurrentProcessId := 7\<rparr>)"
    by (simp add: enumerates_windows_def live_window_def example_windows_simps)
  show ?thesis
    using GetValidHwndForWebAuthn_resolution_order [OF e1, of "0x20020"]
      GetValidHwndForWebAuthn_resolution_order [OF e1, of "0xDEADBEEF"]
      GetValidHwndForWebAuthn_resolution_order [OF e2, of 0]
      GetValidHwndForWebAuthn_resolution_order [OF e3, of 0]
    by (simp add: e1 resolution_order_def live_window_def own_visible_window_def
        example_windows_simps)
qed

theorem create_credential_result_witness:
  "fst (CreateCredentialSync example_platform example_argv (start example_windows)) =
     Inr (ResultBuffer [1, 2]) \<and>
   count_list (events_since (start example_windows)
       (snd (CreateCredentialSync example_platform example_argv (start example_windows))))
     Call_FreeCredentialAttestation = 1 \<and>
   fst (CreateCredential forgetful_platform example_argv (start example_windows)) =
     Inl MissingCredentialId \<and>
   count_list (events_since (start example_windows)
       (snd (CreateCredential forgetful_platform example_argv (start example_windows))))
     Call_FreeCredentialAttestation = 1 \<and>
   fst (CreateCredentialSync example_platform empty_rpId_argv (start example_windows)) =
     Inl (MakeCredentialFailed NTE_INVALID_PARAMETER) \<and>
   count_list (events_since (start example_windows)
       (snd (CreateCredentialSync example_platform empty_rpId_argv (start example_windows))))
     Call_FreeCredentialAttestation = 0"
proof -
  let ?s = "start example_windows"
  let ?created = "\<lparr>cbCredentialId = 2, pbCredentialId = Some (\<lambda>i. of_nat (Suc i))\<rparr>"
  let ?forgotten = "\<lparr>cbCredentialId = 0, pbCredentialId = None\<rparr>"
  let ?missing_call = "make_credential_call 0 (widen ''example.com'') [] []
    (replicate 32 0) (replicate 32 1)"
  let ?empty_call = "make_credential_call 0x20020 [] (widen ''X'') (widen ''Y'')
    (replicate 32 0) (replicate 32 1)"
  have m1: "Call_MakeCredential example_call \<in> set (events_since ?s
      (snd (CreateCredentialSync example_platform example_argv ?s)))"
    using example_CreateCredentialSync
    by (simp add: events_since_def start_simps example_call_def)
  have a1: "WebAuthNAuthenticatorMakeCredential example_platform example_call =
      (S_OK, Some ?created)"
    by (simp add: example_call_def example_platform_simps make_credential_call_simps widen_Nil)
  have m2: "Call_MakeCredential ?missing_call \<in> set (events_since ?s
      (snd (CreateCredential forgetful_platform example_argv ?s)))"
    using example_missing_credential_id
    by (simp add: events_since_def start_simps)
  have a2: "WebAuthNAuthenticatorMakeCredential forgetful_platform ?missing_call =
      (S_OK, Some ?forgotten)"
    by (simp add: forgetful_platform_simps)
  have m3: "Call_MakeCredential ?empty_call \<in> set (events_since ?s
      (snd (CreateCredentialSync example_platform empty_rpId_argv ?s)))"
    using example_empty_rpId
    by (simp add: events_since_def start_simps)
  have a3: "WebAuthNAuthenticatorMakeCredential example_platform ?empty_call =
      (NTE_INVALID_PARAMETER, None)"
    by (simp add: example_platform_simps make_credential_call_simps)
  show ?thesis
    using create_credential_result [OF disjI2 [OF refl] m1 a1]
      create_credential_result [OF disjI1 [OF refl] m2 a2]
      create_credential_result [OF disjI2 [OF refl] m3 a3]
    by (simp add: status_simps missing_credential_id_def credential_id_copy_def upt_0_2)
qed

theorem create_credential_options_witness:
  "Call_MakeCredential example_call \<in> set (events_since (start example_windows)
      (snd (CreateCredentialSync example_platform example_argv (start example_windows)))) \<and>
   map lAlg (mc_coseList example_call) =
     [WEBAUTHN_COSE_ALGORITHM_ECDSA_P256_WITH_SHA256,
      WEBAUTHN_COSE_ALGORITHM_RSASSA_PKCS1_V1_5_WITH_SHA256] \<and>
   mc_dwTimeoutMilliseconds (mc_options example_call) = 60000 \<and>
   mc_dwAuthenticatorAttachment (mc_options example_call) =
     WEBAUTHN_AUTHENTICATOR_ATTACHMENT_PLATFORM"
proof -
  have m: "Call_MakeCredential example_call \<in> set (events_since (start example_windows)
      (snd (CreateCredentialSync example_platform example_argv (start example_windows))))"
    using example_CreateCredentialSync
    by (simp add: events_since_def start_simps example_call_def)
  show ?thesis
    using create_credential_options [OF disjI2 [OF refl] m] m by simp
qed

theorem create_credential_names_witness:
  "Call_MakeCredential example_call \<in> set (events_since (start example_windows)
      (snd (CreateCredentialSync example_platform example_argv (start example_windows)))) \<and>
   example_argv ! 1 = String [] \<and> example_argv ! 2 = String [] \<and>
   rp_pwszName (mc_rpInfo example_call) = widen ''example.com'' \<and>
   user_pwszName (mc_userInfo example_call) = widen ''Netcatty'' \<and>
   user_pwszDisplayName (mc_userInfo example_call) = widen ''Netcatty''"
proof -
  have m: "Call_MakeCredential example_call \<in> set (events_since (start example_windows)
      (snd (CreateCredentialSync example_platform example_argv (start example_windows))))"
    using example_CreateCredentialSync
    by (simp add: events_since_def start_simps example_call_def)
  show ?thesis
    using create_credential_names [OF disjI2 [OF refl] m] m
    by (auto simp: example_argv_def Utf8ToWide_def example_platform_simps)
qed


section \<open>Where the two variants differ\<close>

text \<open>
  Claim C1 asks that every ceremony that reaches the platform has a successful
  process-wide security initialisation behind it and passes a window handle that went
  through the resolver. The synchronous variants call \<open>GetValidHwndForWebAuthn\<close>
  and \<open>EnsureComSecurityInitialized\<close> before the platform. The asynchronous
  \<open>Execute\<close> calls neither (\<open>asynchronous_security\<close>, \<open>CreateCredential_handle\<close>):
  on the concrete platform, a creation with the handle \<open>0xDEADBEEF\<close>, which is no
  window, calls the platform with this very handle, although the resolver answers
  the foreground window \<open>0x20020\<close> for it, and the security initialisation has not
  run when the ceremony ends. The synchronous creation with the same arguments
  initialises the security context first and passes the window \<open>0x20020\<close>.
\<close>

theorem CreateCredential_unprepared_platform_call:
  "events_since (start example_windows)
     (snd (CreateCredential example_platform dead_handle_argv (start example_windows))) =
     [Call_BCryptGenRandom 32, Call_BCryptGenRandom 32,
      Call_MakeCredential
        (make_credential_call 0xDEADBEEF (widen ''example.com'') (widen ''Example'')
           (widen ''alice'') (replicate 32 0) (replicate 32 1)),
      Call_FreeCredentialAttestation,
      Call_resolve_deferred (ResultBuffer [1, 2])] \<and>
   \<not> IsWindow example_windows 0xDEADBEEF \<and>
   GetValidHwndForWebAuthn example_windows 0xDEADBEEF = 0x20020 \<and>
   \<not> once (snd (CreateCredential example_platform dead_handle_argv (start example_windows))) \<and>
   security_calls
     (snd (CreateCredential example_platform dead_handle_argv (start example_windows))) = 0 \<and>
   events_since (start example_windows)
     (snd (CreateCredentialSync example_platform dead_handle_argv (start example_windows))) =
     [Call_CoInitializeEx COINIT_APARTMENTTHREADED, Call_CoInitializeSecurity,
      Call_BCryptGenRandom 32, Call_BCryptGenRandom 32,
      Call_MakeCredential
        (make_credential_call 0x20020 (widen ''example.com'') (widen ''Example'')
           (widen ''alice'') (replicate 32 0) (replicate 32 1)),
      Call_FreeCredentialAttestation, Call_CoUninitialize]"
  using example_CreateCredential example_CreateCredentialSync_dead_handle
  by (simp add: events_since_def start_simps example_windows_simps
      example_resolution_dead)

text \<open>
  Claim C2 asks that a creation with an empty relying-party id fails with an
  invalid-argument error before any platform call. The asynchronous variant does so
  (\<open>CreateCredential_empty_rpId\<close>). The synchronous variant has no such check:
  on the concrete platform it calls the authenticator with the empty id and reports
  the failure of the platform call.
\<close>

theorem CreateCredentialSync_empty_rpId_reaches_platform:
  "fst (CreateCredentialSync example_platform empty_rpId_argv (start example_windows)) =
     Inl (MakeCredentialFailed NTE_INVALID_PARAMETER) \<and>
   \<not> InvalidArgument (MakeCredentialFailed NTE_INVALID_PARAMETER) \<and>
   Call_MakeCredential
     (make_credential_call 0x20020 [] (widen ''X'') (widen ''Y'') (replicate 32 0)
        (replicate 32 1))
     \<in> set (events_since (start example_windows)
         (snd (CreateCredentialSync example_platform empty_rpId_argv
            (start example_windows))))"
  using example_empty_rpId
  by (simp add: events_since_def start_simps)

text \<open>
  Claim C9 asks that an assertion with an empty credential id fails with an
  invalid-argument error before any platform call. The asynchronous variant does so
  (\<open>GetAssertion_empty_credentialId\<close>). The synchronous variant has no such
  check: on the concrete platform it calls the authenticator with the empty
  credential id and reports the failure of the platform call.
\<close>

theorem GetAssertionSync_empty_credentialId_reaches_platform:
  "fst (GetAssertionSync example_platform empty_credentialId_argv (start example_windows)) =
     Inl (GetAssertionFailed NTE_INVALID_PARAMETER) \<and>
   \<not> InvalidArgument (GetAssertionFailed NTE_INVALID_PARAMETER) \<and>
   Call_GetAssertion
     (get_assertion_call 0x20020 (widen ''example.com'') [] (replicate 32 0))
     \<in> set (events_since (start example_windows)
         (snd (GetAssertionSync example_platform empty_credentialId_argv
            (start example_windows))))"
  using example_empty_credentialId
  by (simp add: events_since_def start_simps)

end
